theory Spec2Isabelle
  imports Main "HOL-Library.Word"
begin

unbundle bit_operations_syntax

section \<open>Framebuffer cache and atomic commit engine of the Exynos DRM display interface\<close>

text \<open>
  A shallow embedding of \<^verbatim>\<open>FramebufferManager\<close>, \<^verbatim>\<open>DrmModeAtomicReq\<close>,
  \<^verbatim>\<open>ExynosVsyncCallback\<close> and the mode request path of
  \<^verbatim>\<open>ExynosDisplayDrmInterface\<close>. Member functions become functions that take the
  object's state and return the new one. Calls into the kernel and into libdrm are
  recorded in a trace; what the kernel answers is a parameter.
\<close>

subsection \<open>Machine types and constants\<close>

type_synonym u32 = "32 word"
type_synonym u64 = "64 word"

text \<open>A \<^verbatim>\<open>const ExynosLayer *\<close> is its address; \<open>0\<close> is \<^verbatim>\<open>nullptr\<close>.\<close>

type_synonym layer_ptr = nat

text \<open>The error codes and the DRM and HAL constants that the functions name, with the
  values the system headers give them.\<close>

definition NO_ERROR :: int where "NO_ERROR = 0"
definition EPERM :: int where "EPERM = 1"
definition ENOMEM :: int where "ENOMEM = 12"
definition EINVAL :: int where "EINVAL = 22"

definition MAX_PLANE_NUM :: nat where "MAX_PLANE_NUM = 3"
definition CBCR_INDEX :: nat where "CBCR_INDEX = 1"

text \<open>\<^verbatim>\<open>DrmArray<T>\<close> is a fixed array; the error log of \<^verbatim>\<open>getBuffer\<close> reads its
  elements 0 to 3.\<close>

definition HWC_DRM_BO_MAX_PLANES :: nat where "HWC_DRM_BO_MAX_PLANES = 4"

definition DRM_FORMAT_UNDEFINED :: u32 where "DRM_FORMAT_UNDEFINED = 0"
definition DRM_FORMAT_C8 :: u32 where "DRM_FORMAT_C8 = 0x20203843"
definition DRM_FORMAT_BGRA8888 :: u32 where "DRM_FORMAT_BGRA8888 = 0x34324142"
definition DRM_MODE_FB_MODIFIERS :: u32 where "DRM_MODE_FB_MODIFIERS = 2"
definition HAL_PIXEL_FORMAT_BGRA_8888 :: int where "HAL_PIXEL_FORMAT_BGRA_8888 = 5"

subsection \<open>Window configuration\<close>

text \<open>
  The enumerations of a window configuration. The functions name
  \<^verbatim>\<open>WIN_STATE_BUFFER\<close>, \<^verbatim>\<open>WIN_STATE_RCD\<close>, \<^verbatim>\<open>WIN_STATE_COLOR\<close> and
  \<^verbatim>\<open>WIN_STATE_CURSOR\<close>, \<^verbatim>\<open>COMP_TYPE_AFBC\<close> and \<^verbatim>\<open>COMP_TYPE_SBWC\<close>,
  \<^verbatim>\<open>DPP_COMP_SRC_G2D\<close> and \<^verbatim>\<open>DPP_COMP_SRC_GPU\<close>; the other enumerators stand for
  the rest of each enumeration, which \<^verbatim>\<open>getBuffer\<close> treats alike.
\<close>

datatype win_state =
    WIN_STATE_DISABLED | WIN_STATE_COLOR | WIN_STATE_BUFFER
  | WIN_STATE_UPDATE | WIN_STATE_CURSOR | WIN_STATE_RCD

datatype comp_type = COMP_TYPE_NONE | COMP_TYPE_AFBC | COMP_TYPE_SBWC

datatype dpp_comp_src = DPP_COMP_SRC_NONE | DPP_COMP_SRC_G2D | DPP_COMP_SRC_GPU

record exynos_win_config_data =
  state :: win_state
  src_f_w :: u32
  src_f_h :: u32
  dst_w :: u32
  dst_h :: u32
  format :: int
  comp_info_type :: comp_type
  comp_info_modifier :: u64
  comp_src :: dpp_comp_src
  fd_idma :: "int list"
  layer :: layer_ptr
  buffer_id :: u64
  protection :: bool

text \<open>The entry of the format table that \<^verbatim>\<open>halFormatToExynosFormat\<close> returns.\<close>

record format_description =
  drmFormat :: u32
  bufferNum :: nat
  planeNum :: nat

subsection \<open>The kernel and the platform\<close>

record addfb2_request =
  fb_width :: u32
  fb_height :: u32
  fb_format :: u32
  fb_handles :: "u32 list"
  fb_pitches :: "u32 list"
  fb_offsets :: "u32 list"
  fb_modifier :: "u64 list"
  fb_flags :: u32

text \<open>A call into the kernel: \<^verbatim>\<open>drmPrimeFDToHandle\<close> with the file descriptor and the
  GEM handle it gave (0 for none), \<^verbatim>\<open>drmModeAddFB2WithModifiers\<close> with its arguments,
  and the \<^verbatim>\<open>DRM_IOCTL_GEM_CLOSE\<close> of a handle.\<close>

datatype drm_call =
    PrimeFDToHandle int u32
  | AddFB2WithModifiers addfb2_request
  | GemClose u32

text \<open>
  What lies outside the translated file: the answers of the kernel (each may depend on
  the calls made so far), the format helpers, the modifier macros and the class
  constants of \<^verbatim>\<open>FramebufferManager\<close>, which its header declares.
\<close>

record platform =
  drmPrimeFDToHandle :: "drm_call list \<Rightarrow> int \<Rightarrow> int \<times> u32"
  drmModeAddFB2WithModifiers :: "drm_call list \<Rightarrow> addfb2_request \<Rightarrow> int \<times> u32"
  drmIoctl_GEM_CLOSE :: "drm_call list \<Rightarrow> u32 \<Rightarrow> int"
  halFormatToExynosFormat :: "int \<Rightarrow> comp_type \<Rightarrow> format_description option"
  getBytePerPixelOfPrimaryPlane :: "int \<Rightarrow> u32"
  getExynosBufferYLength :: "u32 \<Rightarrow> u32 \<Rightarrow> int \<Rightarrow> u32"
  DRM_FORMAT_MOD_PROTECTION :: u64
  DRM_FORMAT_MOD_SAMSUNG_COLORMAP :: u64
  AFBC_FORMAT_MOD_SOURCE_G2D :: u64
  AFBC_FORMAT_MOD_SOURCE_GPU :: u64
  DRM_FORMAT_MOD_ARM_AFBC :: "u64 \<Rightarrow> u64"
  DRM_FORMAT_MOD_SAMSUNG_SBWC :: "u64 \<Rightarrow> u64"
  MAX_CACHED_LAYERS :: nat
  MAX_CACHED_SECURE_LAYERS :: nat
  MAX_CACHED_BUFFERS_PER_LAYER :: nat
  MAX_CACHED_SECURE_BUFFERS_PER_LAYER :: nat

subsection \<open>Framebuffers and the manager's state\<close>

text \<open>
  Modelled from the spec: the cache key \<^verbatim>\<open>BufferIdentity\<close> of a
  \<^verbatim>\<open>Framebuffer\<close>, whose declaration is in the class header. It has two variants,
  a pixel buffer (raw buffer id, pixel format, protection flag) and a solid colour
  (width, height); equality is structural.
\<close>

datatype BufferIdentity =
    BufferDesc (bufferId: u64) (descFormat: u32) (isSecure: bool)
  | SolidColorDesc (width: u32) (height: u32)

record Framebuffer =
  drmFd :: int
  fbId :: u32
  identity :: BufferIdentity

type_synonym FBList = "Framebuffer list"

text \<open>
  A \<^verbatim>\<open>std::map<const ExynosLayer *, FBList>\<close> is a list of entries in key order,
  one entry per key; a \<^verbatim>\<open>std::set\<close> of layers is a set.
\<close>

type_synonym layer_map = "(layer_ptr \<times> FBList) list"

record FramebufferManager =
  mDrmFd :: int
  mCachedLayerBuffers :: layer_map
  mCachedSecureLayerBuffers :: layer_map
  mCleanBuffers :: FBList
  mCacheShrinkPending :: bool
  mCacheSecureShrinkPending :: bool
  mCachedLayersInuse :: "layer_ptr set"
  mCachedSecureLayersInuse :: "layer_ptr set"

text \<open>\<^verbatim>\<open>m[k]\<close> read: the bucket of \<open>k\<close>, empty when \<open>k\<close> has no entry.\<close>

definition bucket_at :: "layer_ptr \<Rightarrow> layer_map \<Rightarrow> FBList" where
  "bucket_at k m = (case map_of m k of None \<Rightarrow> [] | Some b \<Rightarrow> b)"

text \<open>\<^verbatim>\<open>m[k] = b\<close>: replaces the entry of \<open>k\<close>, or inserts one at its place in key order.\<close>

fun map_put :: "layer_ptr \<Rightarrow> FBList \<Rightarrow> layer_map \<Rightarrow> layer_map" where
  "map_put k b [] = [(k, b)]"
| "map_put k b ((k', b') # rest) =
     (if k = k' then (k, b) # rest
      else if k < k' then (k, b) # (k', b') # rest
      else (k', b') # map_put k b rest)"

text \<open>All framebuffers a map holds, bucket after bucket.\<close>

definition all_buffers :: "layer_map \<Rightarrow> FBList" where
  "all_buffers m = concat (map snd m)"

subsection \<open>FramebufferManager\<close>

definition getBufHandleFromFd :: "platform \<Rightarrow> int \<Rightarrow> drm_call list \<Rightarrow> u32 \<times> drm_call list" where
  "getBufHandleFromFd P fd t =
     (let (ret, gem_handle) = drmPrimeFDToHandle P t fd
      in (gem_handle, t @ [PrimeFDToHandle fd gem_handle]))"

definition validateLayerInfo :: "win_state \<Rightarrow> u32 \<Rightarrow> u32 list \<Rightarrow> u64 list \<Rightarrow> bool" where
  "validateLayerInfo st fmt handles modifier =
     (case st of
        WIN_STATE_RCD \<Rightarrow>
          fmt = DRM_FORMAT_C8 \<and> handles ! 0 \<noteq> 0 \<and> handles ! 1 = 0 \<and> modifier ! 0 = 0
      | _ \<Rightarrow> True)"

definition addFB2WithModifiers ::
  "platform \<Rightarrow> win_state \<Rightarrow> addfb2_request \<Rightarrow> u32 \<Rightarrow> drm_call list
     \<Rightarrow> (int \<times> u32) \<times> drm_call list" where
  "addFB2WithModifiers P st req buf_id t =
     (if \<not> validateLayerInfo st (fb_format req) (fb_handles req) (fb_modifier req)
      then ((- EINVAL, buf_id), t)
      else (drmModeAddFB2WithModifiers P t req, t @ [AddFB2WithModifiers req]))"

definition freeBufHandle :: "platform \<Rightarrow> u32 \<Rightarrow> drm_call list \<Rightarrow> drm_call list" where
  "freeBufHandle P h t = (if h = 0 then t else t @ [GemClose h])"

definition checkShrink :: "platform \<Rightarrow> FramebufferManager \<Rightarrow> FramebufferManager" where
  "checkShrink P m =
     m\<lparr>mCacheShrinkPending := length (mCachedLayerBuffers m) > MAX_CACHED_LAYERS P,
       mCacheSecureShrinkPending :=
         length (mCachedSecureLayerBuffers m) > MAX_CACHED_SECURE_LAYERS P\<rparr>"

definition clean :: "layer_ptr \<Rightarrow> layer_map \<Rightarrow> FBList \<Rightarrow> layer_map \<times> FBList" where
  "clean l layerBuffs cleanBuffers =
     (case map_of layerBuffs l of
        None \<Rightarrow> (layerBuffs, cleanBuffers)
      | Some b \<Rightarrow> (filter (\<lambda>e. fst e \<noteq> l) layerBuffs, cleanBuffers @ b))"

definition cleanup :: "layer_ptr \<Rightarrow> FramebufferManager \<Rightarrow> FramebufferManager" where
  "cleanup l m =
     (let (c1, cb1) = clean l (mCachedLayerBuffers m) (mCleanBuffers m);
          (c2, cb2) = clean l (mCachedSecureLayerBuffers m) cb1
      in m\<lparr>mCachedLayerBuffers := c1, mCachedSecureLayerBuffers := c2, mCleanBuffers := cb2\<rparr>)"

definition markInuseLayerLocked ::
  "layer_ptr \<Rightarrow> bool \<Rightarrow> FramebufferManager \<Rightarrow> FramebufferManager" where
  "markInuseLayerLocked l isSecureBuffer m =
     (let m1 = (if \<not> isSecureBuffer \<and> mCacheShrinkPending m
                then m\<lparr>mCachedLayersInuse := insert l (mCachedLayersInuse m)\<rparr> else m)
      in if isSecureBuffer \<and> mCacheSecureShrinkPending m1
         then m1\<lparr>mCachedSecureLayersInuse := insert l (mCachedSecureLayersInuse m1)\<rparr>
         else m1)"

text \<open>
  Modelled from the spec: \<^verbatim>\<open>findCachedFbId\<close>, a template member defined in the class
  header. It scans the owner's bucket (the secure one for a secure buffer, else the
  non-secure one) for an entry that matches the predicate and returns the cached id on a
  hit; \<^verbatim>\<open>getBuffer\<close> reads the result 0 as a miss. The lookup marks the owner as in
  use, which the spec restricts to the shrink-pending state, as
  \<^verbatim>\<open>markInuseLayerLocked\<close> does.
\<close>

definition findCachedFbId ::
  "layer_ptr \<Rightarrow> bool \<Rightarrow> (Framebuffer \<Rightarrow> bool) \<Rightarrow> FramebufferManager
     \<Rightarrow> u32 \<times> FramebufferManager" where
  "findCachedFbId l isSecureBuffer predicate m =
     (let m1 = markInuseLayerLocked l isSecureBuffer m;
          cachedBuffers = bucket_at l (if \<not> isSecureBuffer then mCachedLayerBuffers m1
                                       else mCachedSecureLayerBuffers m1)
      in (case find predicate cachedBuffers of None \<Rightarrow> 0 | Some fb \<Rightarrow> fbId fb, m1))"

text \<open>The four arrays that \<^verbatim>\<open>getBuffer\<close> fills for the kernel.\<close>

record fb_arrays =
  pitches :: "u32 list"
  offsets :: "u32 list"
  modifiers :: "u64 list"
  handles :: "u32 list"

text \<open>The loop over \<^verbatim>\<open>bufferIndex\<close> that resolves one GEM handle per buffer and
  leaves at the first handle that is 0. The flag tells whether it ran to its end.\<close>

fun resolveHandles ::
  "platform \<Rightarrow> exynos_win_config_data \<Rightarrow> u32 \<Rightarrow> nat list \<Rightarrow> fb_arrays \<Rightarrow> drm_call list
     \<Rightarrow> bool \<times> fb_arrays \<times> drm_call list" where
  "resolveHandles P config bpp [] a t = (True, a, t)"
| "resolveHandles P config bpp (bufferIndex # rest) a t =
     (let a1 = a\<lparr>pitches := (pitches a)[bufferIndex := src_f_w config * bpp],
                 modifiers := (modifiers a)[bufferIndex := modifiers a ! 0]\<rparr>;
          (h, t1) = getBufHandleFromFd P (fd_idma config ! bufferIndex) t;
          a2 = a1\<lparr>handles := (handles a1)[bufferIndex := h]\<rparr>
      in if h = 0 then (False, a2, t1) else resolveHandles P config bpp rest a2 t1)"

text \<open>The loop over \<^verbatim>\<open>planeIndex\<close> that copies plane 0 to the other planes.\<close>

fun copyPlanes :: "nat list \<Rightarrow> fb_arrays \<Rightarrow> fb_arrays" where
  "copyPlanes [] a = a"
| "copyPlanes (planeIndex # rest) a =
     copyPlanes rest
       (a\<lparr>handles := (handles a)[planeIndex := handles a ! 0],
          pitches := (pitches a)[planeIndex := pitches a ! 0],
          modifiers := (modifiers a)[planeIndex := modifiers a ! 0]\<rparr>)"

text \<open>The loop that closes the handle of every buffer after the framebuffer call.\<close>

fun freeHandles :: "platform \<Rightarrow> nat list \<Rightarrow> u32 list \<Rightarrow> drm_call list \<Rightarrow> drm_call list" where
  "freeHandles P [] hs t = t"
| "freeHandles P (bufferIndex # rest) hs t =
     freeHandles P rest hs (freeBufHandle P (hs ! bufferIndex) t)"

text \<open>The arguments of the call \<^verbatim>\<open>addFB2WithModifiers(config.state, bufWidth, bufHeight,
  drmFormat, handles, pitches, offsets, modifiers, &fbId, modifiers[0] ? DRM_MODE_FB_MODIFIERS : 0)\<close>.\<close>

definition fb_request :: "u32 \<Rightarrow> u32 \<Rightarrow> u32 \<Rightarrow> fb_arrays \<Rightarrow> addfb2_request" where
  "fb_request bufWidth bufHeight fmt a =
     \<lparr>fb_width = bufWidth, fb_height = bufHeight, fb_format = fmt,
      fb_handles = handles a, fb_pitches = pitches a, fb_offsets = offsets a,
      fb_modifier = modifiers a,
      fb_flags = (if modifiers a ! 0 \<noteq> 0 then DRM_MODE_FB_MODIFIERS else 0)\<rparr>"

text \<open>The tail of \<^verbatim>\<open>getBuffer\<close>, after the lookup missed: the framebuffer call,
  the release of the handles, and the insertion into the cache.\<close>

definition createAndCache ::
  "platform \<Rightarrow> exynos_win_config_data \<Rightarrow> u32 \<Rightarrow> u32 \<Rightarrow> u32 \<Rightarrow> nat \<Rightarrow> fb_arrays \<Rightarrow> u32
     \<Rightarrow> FramebufferManager \<Rightarrow> drm_call list
     \<Rightarrow> (int \<times> u32) \<times> FramebufferManager \<times> drm_call list" where
  "createAndCache P config bufWidth bufHeight fmt bufNum a fbId0 m t =
     (let isSecureBuffer = protection config;
          req = fb_request bufWidth bufHeight fmt a;
          ((ret, fbId1), t1) = addFB2WithModifiers P (state config) req fbId0 t;
          t2 = freeHandles P [0..<bufNum] (handles a) t1
      in if ret \<noteq> 0 then ((ret, fbId1), m, t2)
         else if layer config \<noteq> 0 \<or> buffer_id config \<noteq> 0 then
           (let cachedBuffers = bucket_at (layer config)
                  (if \<not> isSecureBuffer then mCachedLayerBuffers m
                   else mCachedSecureLayerBuffers m);
                maxCachedBufferSize =
                  (if \<not> isSecureBuffer then MAX_CACHED_BUFFERS_PER_LAYER P
                   else MAX_CACHED_SECURE_BUFFERS_PER_LAYER P);
                m1 = markInuseLayerLocked (layer config) isSecureBuffer m;
                over = length cachedBuffers > maxCachedBufferSize;
                m2 = (if over then m1\<lparr>mCleanBuffers := mCleanBuffers m1 @ cachedBuffers\<rparr>
                      else m1);
                kept = (if over then [] else cachedBuffers);
                fb = \<lparr>drmFd = mDrmFd m, fbId = fbId1,
                      identity =
                        (if state config = WIN_STATE_COLOR then SolidColorDesc bufWidth bufHeight
                         else BufferDesc (buffer_id config) fmt (protection config))\<rparr>;
                m3 = (if \<not> isSecureBuffer
                      then m2\<lparr>mCachedLayerBuffers :=
                              map_put (layer config) (fb # kept) (mCachedLayerBuffers m2)\<rparr>
                      else m2\<lparr>mCachedSecureLayerBuffers :=
                              map_put (layer config) (fb # kept) (mCachedSecureLayerBuffers m2)\<rparr>)
            in ((0, fbId1), m3, t2))
         else ((0, fbId1), m, t2))"

text \<open>The arrays as \<^verbatim>\<open>getBuffer\<close> declares them: all 0, but for the protection
  bit in the first modifier.\<close>

definition declaredArrays :: "platform \<Rightarrow> exynos_win_config_data \<Rightarrow> fb_arrays" where
  "declaredArrays P config =
     \<lparr>pitches = replicate HWC_DRM_BO_MAX_PLANES 0,
      offsets = replicate HWC_DRM_BO_MAX_PLANES 0,
      modifiers = (replicate HWC_DRM_BO_MAX_PLANES 0)
                    [0 := (if protection config then DRM_FORMAT_MOD_PROTECTION P else 0)],
      handles = replicate HWC_DRM_BO_MAX_PLANES 0\<rparr>"

text \<open>The block that adds the AFBC or SBWC bits to the first modifier.\<close>

definition compressionModifier :: "platform \<Rightarrow> exynos_win_config_data \<Rightarrow> fb_arrays \<Rightarrow> fb_arrays" where
  "compressionModifier P config a =
     (if comp_info_type config = COMP_TYPE_AFBC then
        (let compressed_modifier =
               (case comp_src config of
                  DPP_COMP_SRC_G2D \<Rightarrow> comp_info_modifier config OR AFBC_FORMAT_MOD_SOURCE_G2D P
                | DPP_COMP_SRC_GPU \<Rightarrow> comp_info_modifier config OR AFBC_FORMAT_MOD_SOURCE_GPU P
                | _ \<Rightarrow> comp_info_modifier config)
         in a\<lparr>modifiers := (modifiers a)
                 [0 := modifiers a ! 0 OR DRM_FORMAT_MOD_ARM_AFBC P compressed_modifier]\<rparr>)
      else if comp_info_type config = COMP_TYPE_SBWC then
        a\<lparr>modifiers := (modifiers a)
             [0 := modifiers a ! 0 OR DRM_FORMAT_MOD_SAMSUNG_SBWC P (comp_info_modifier config)]\<rparr>
      else a)"

text \<open>The block for a format with one buffer and several planes: the offset of the
  CbCr plane, and plane 0 copied to the others.\<close>

definition sharePlanes ::
  "platform \<Rightarrow> exynos_win_config_data \<Rightarrow> format_description \<Rightarrow> fb_arrays \<Rightarrow> fb_arrays" where
  "sharePlanes P config exynosFormat a =
     (if bufferNum exynosFormat = 1 \<and> planeNum exynosFormat > bufferNum exynosFormat
      then copyPlanes [1..<planeNum exynosFormat]
             (a\<lparr>offsets := (offsets a)[CBCR_INDEX :=
                  getExynosBufferYLength P (src_f_w config) (src_f_h config) (format config)]\<rparr>)
      else a)"

text \<open>The arrays of a solid colour.\<close>

definition colorArrays :: "platform \<Rightarrow> exynos_win_config_data \<Rightarrow> fb_arrays \<Rightarrow> fb_arrays" where
  "colorArrays P config a =
     a\<lparr>modifiers := (modifiers a)[0 := modifiers a ! 0 OR DRM_FORMAT_MOD_SAMSUNG_COLORMAP P],
       handles := (handles a)[0 := 0xff000000],
       pitches := (pitches a)
         [0 := dst_w config * getBytePerPixelOfPrimaryPlane P HAL_PIXEL_FORMAT_BGRA_8888]\<rparr>"

text \<open>
  \<^verbatim>\<open>getBuffer(config, fbId)\<close>. The result is the return code and the value left in
  \<^verbatim>\<open>fbId\<close>, with the manager and the trace of kernel calls. \<open>None\<close> stands for
  a format description that makes the function index \<^verbatim>\<open>fd_idma\<close> or a
  \<^verbatim>\<open>DrmArray\<close> beyond its end, which C++ leaves undefined.
\<close>

definition getBuffer ::
  "platform \<Rightarrow> exynos_win_config_data \<Rightarrow> u32 \<Rightarrow> FramebufferManager \<Rightarrow> drm_call list
     \<Rightarrow> ((int \<times> u32) \<times> FramebufferManager \<times> drm_call list) option" where
  "getBuffer P config fbId0 m t =
     (let isSecureBuffer = protection config
      in if state config = WIN_STATE_BUFFER \<or> state config = WIN_STATE_RCD then
           (case halFormatToExynosFormat P (format config) (comp_info_type config) of
              None \<Rightarrow> Some ((- EINVAL, fbId0), m, t)
            | Some exynosFormat \<Rightarrow>
                if drmFormat exynosFormat = DRM_FORMAT_UNDEFINED
                then Some ((- EINVAL, fbId0), m, t)
                else if bufferNum exynosFormat = 0 then Some ((- EINVAL, fbId0), m, t)
                else if planeNum exynosFormat = 0 \<or> planeNum exynosFormat > MAX_PLANE_NUM
                then Some ((- EINVAL, fbId0), m, t)
                else
                  (let (fbId1, m1) = findCachedFbId (layer config) isSecureBuffer
                          (\<lambda>buffer. identity buffer =
                             BufferDesc (buffer_id config) (drmFormat exynosFormat)
                               (protection config)) m
                   in if fbId1 \<noteq> 0 then Some ((NO_ERROR, fbId1), m1, t)
                      else if bufferNum exynosFormat > HWC_DRM_BO_MAX_PLANES
                              \<or> bufferNum exynosFormat > length (fd_idma config) then None
                      else
                        (let (ok, a2, t1) =
                               resolveHandles P config
                                 (getBytePerPixelOfPrimaryPlane P (format config))
                                 [0..<bufferNum exynosFormat]
                                 (compressionModifier P config (declaredArrays P config)) t
                         in if \<not> ok then Some ((- ENOMEM, fbId1), m1, t1)
                            else Some (createAndCache P config (src_f_w config) (src_f_h config)
                                         (drmFormat exynosFormat) (bufferNum exynosFormat)
                                         (sharePlanes P config exynosFormat a2) fbId1 m1 t1))))
         else if state config = WIN_STATE_COLOR then
           (let (fbId1, m1) = findCachedFbId (layer config) isSecureBuffer
                   (\<lambda>buffer. identity buffer = SolidColorDesc (dst_w config) (dst_h config)) m
            in if fbId1 \<noteq> 0 then Some ((NO_ERROR, fbId1), m1, t)
               else Some (createAndCache P config (dst_w config) (dst_h config)
                            DRM_FORMAT_BGRA8888 0
                            (colorArrays P config (declaredArrays P config)) fbId1 m1 t))
         else Some ((- EINVAL, fbId0), m, t))"

text \<open>The inner function of \<^verbatim>\<open>destroyUnusedLayersLocked\<close>: its loop over the map.\<close>

fun spliceUnused :: "layer_ptr set \<Rightarrow> layer_map \<Rightarrow> FBList \<Rightarrow> layer_map \<times> FBList" where
  "spliceUnused inuse [] cb = ([], cb)"
| "spliceUnused inuse ((l, b) # rest) cb =
     (if l \<notin> inuse then spliceUnused inuse rest (cb @ b)
      else (let (kept, cb') = spliceUnused inuse rest cb in ((l, b) # kept, cb')))"

definition destroyUnusedLayers ::
  "bool \<Rightarrow> layer_ptr set \<Rightarrow> layer_map \<Rightarrow> FBList \<Rightarrow> bool \<times> layer_ptr set \<times> layer_map \<times> FBList" where
  "destroyUnusedLayers cacheShrinkPending cachedLayersInuse cachedLayerBuffers cb =
     (if \<not> cacheShrinkPending \<or> card cachedLayersInuse = length cachedLayerBuffers
      then (False, {}, cachedLayerBuffers, cb)
      else (let (kept, cb') = spliceUnused cachedLayersInuse cachedLayerBuffers cb
            in (True, {}, kept, cb')))"

definition destroyUnusedLayersLocked :: "FramebufferManager \<Rightarrow> FramebufferManager" where
  "destroyUnusedLayersLocked m =
     (let (r1, inuse1, c1, cb1) =
            destroyUnusedLayers (mCacheShrinkPending m) (mCachedLayersInuse m)
              (mCachedLayerBuffers m) (mCleanBuffers m);
          (r2, inuse2, c2, cb2) =
            destroyUnusedLayers (mCacheSecureShrinkPending m) (mCachedSecureLayersInuse m)
              (mCachedSecureLayerBuffers m) cb1
      in m\<lparr>mCachedLayerBuffers := c1, mCachedLayersInuse := inuse1,
           mCachedSecureLayerBuffers := c2, mCachedSecureLayersInuse := inuse2,
           mCleanBuffers := cb2\<rparr>)"

text \<open>The loop of \<^verbatim>\<open>destroyAllSecureBuffersLocked\<close> over the secure map.\<close>

fun spliceAll :: "layer_map \<Rightarrow> FBList \<Rightarrow> FBList" where
  "spliceAll [] cb = cb"
| "spliceAll ((l, bufferList) # rest) cb =
     spliceAll rest (if length bufferList \<noteq> 0 then cb @ bufferList else cb)"

definition destroyAllSecureBuffersLocked :: "FramebufferManager \<Rightarrow> FramebufferManager" where
  "destroyAllSecureBuffersLocked m =
     m\<lparr>mCleanBuffers := spliceAll (mCachedSecureLayerBuffers m) (mCleanBuffers m),
       mCachedSecureLayerBuffers := []\<rparr>"

text \<open>\<^verbatim>\<open>flip\<close> returns the manager and whether \<^verbatim>\<open>mFlipDone\<close> was signalled.\<close>

definition flip :: "bool \<Rightarrow> FramebufferManager \<Rightarrow> FramebufferManager \<times> bool" where
  "flip hasSecureBuffer m =
     (let m1 = destroyUnusedLayersLocked m;
          m2 = (if \<not> hasSecureBuffer then destroyAllSecureBuffersLocked m1 else m1);
          needCleanup = length (mCleanBuffers m2) > 0
      in (m2, needCleanup))"

definition releaseAll :: "FramebufferManager \<Rightarrow> FramebufferManager" where
  "releaseAll m = m\<lparr>mCachedLayerBuffers := [], mCachedSecureLayerBuffers := [],
                    mCleanBuffers := []\<rparr>"

subsection \<open>Atomic requests\<close>

definition HWC2_ERROR_NONE :: int where "HWC2_ERROR_NONE = 0"
definition HWC2_ERROR_BAD_CONFIG :: int where "HWC2_ERROR_BAD_CONFIG = 2"

definition DRM_MODE_ATOMIC_TEST_ONLY :: u32 where "DRM_MODE_ATOMIC_TEST_ONLY = 0x0100"

record drmModeAtomicReqItem =
  object_id :: u32
  property_id :: u32
  item_value :: u64

record drmModeAtomicReq =
  cursor :: u32
  size_items :: u32
  items :: "drmModeAtomicReqItem list"

text \<open>
  Modelled from the spec: a \<^verbatim>\<open>DrmProperty\<close> of the hardware property catalog,
  declared outside the translated files. It carries the kernel property id (0 when the
  hardware lacks the property) and the last-committed value.
\<close>

record DrmProperty =
  prop_id :: u32
  prop_value :: u64

text \<open>
  Modelled from the spec: \<^verbatim>\<open>DrmProperty::validateChange\<close>, defined outside the
  translated files. A write is suppressed when the new value equals the last-committed
  value of the property.
\<close>

definition validateChange :: "DrmProperty \<Rightarrow> u64 \<Rightarrow> bool" where
  "validateChange property v = (v \<noteq> prop_value property)"

text \<open>
  Modelled from the spec: a display mode and \<^verbatim>\<open>ModeState\<close>
  (\<open>{mode, blobId, oldBlobId}\<close>), declared in the class header.
  \<open>needsModeSet\<close> holds when the blob id is not 0; a full mode switch is one whose
  resolution or timing class differs.
\<close>

record DrmMode =
  mode_id :: u32
  h_display :: u32
  v_display :: u32
  timing_class :: nat
  te_period :: u64

record ModeState =
  mode :: DrmMode
  blob_id :: u32
  old_blob_id :: u32

definition needsModeSet :: "ModeState \<Rightarrow> bool" where
  "needsModeSet s = (blob_id s \<noteq> 0)"

definition isFullModeSwitch :: "ModeState \<Rightarrow> DrmMode \<Rightarrow> bool" where
  "isFullModeSwitch s newMode =
     (h_display (mode s) \<noteq> h_display newMode \<or> v_display (mode s) \<noteq> v_display newMode
      \<or> timing_class (mode s) \<noteq> timing_class newMode)"

datatype hw_call =
    CreatePropertyBlob DrmMode
  | DestroyPropertyBlob u32
  | AtomicCommit "drmModeAtomicReq option" u32
  | WriteKernelFile int
  | AckCallback u32
  | SetVBlankOffDelay int
  | VSyncControl bool
  | OperationRateOnConfig u32
  | HandleTargetOperationRate

text \<open>
  The device behind the display interface: the answers of the kernel and of libdrm,
  the clock, and the constants that the class header declares.
\<close>

record drm_device =
  drmModeAtomicAlloc :: "drmModeAtomicReq option"
  drmModeAtomicAddProperty ::
    "drmModeAtomicReq option \<Rightarrow> u32 \<Rightarrow> u32 \<Rightarrow> u64 \<Rightarrow> int \<times> drmModeAtomicReq option"
  drmModeAtomicCommit :: "hw_call list \<Rightarrow> drmModeAtomicReq option \<Rightarrow> u32 \<Rightarrow> int"
  IsDrmInTUI :: "hw_call list \<Rightarrow> bool"
  CreatePropertyBlobResult :: "hw_call list \<Rightarrow> DrmMode \<Rightarrow> int \<times> u32"
  DestroyPropertyBlobResult :: "hw_call list \<Rightarrow> u32 \<Rightarrow> int"
  systemTime :: "hw_call list \<Rightarrow> int"
  kernelFileOpens :: "hw_call list \<Rightarrow> bool"
  kAllowDumpDrmAtomicMessageTimeMs :: int
  kEnableDrmAtomicMessage :: int
  kDisableDrmDebugMessage :: int

record DrmModeAtomicReq =
  mPset :: "drmModeAtomicReq option"
  mError :: int
  mOldBlobs :: "u32 list"
  mAckCallback :: "u32 option"

subsection \<open>The vsync callback\<close>

text \<open>
  The fields of \<^verbatim>\<open>ExynosVsyncCallback\<close>; the class header declares them. Time
  stamps and periods are unsigned 64-bit nanoseconds, the transient duration is an
  \<^verbatim>\<open>int\<close>.
\<close>

record ExynosVsyncCallback =
  mVsyncTimeStamp :: u64
  mVsyncPeriod :: u64
  mDesiredVsyncPeriod :: u64
  mModeSetFence :: int
  mTransientDuration :: u32

record fence_clock =
  getSignalTime :: "int \<Rightarrow> u64"
  SIGNAL_TIME_INVALID :: u64
  SIGNAL_TIME_PENDING :: u64

text \<open>
  \<^verbatim>\<open>Callback(display, timestamp)\<close>. The \<^verbatim>\<open>int64_t\<close> time stamp is given by
  its 64 bits. The arithmetic is C's: the difference of the periods is cut to 32 bits
  and read as signed; the time-out bound is computed and compared in unsigned 64 bits,
  where the \<^verbatim>\<open>int\<close> operands are sign-extended. (\<^verbatim>\<open>abs\<close> of the least
  \<^verbatim>\<open>int\<close> is undefined in C; here it is \<open>2 ^ 31\<close>.)
\<close>

definition Callback ::
  "fence_clock \<Rightarrow> int \<Rightarrow> u64 \<Rightarrow> ExynosVsyncCallback \<Rightarrow> bool \<times> ExynosVsyncCallback" where
  "Callback F display timestamp v =
     (let v1 = (if mVsyncTimeStamp v > 0
                then v\<lparr>mVsyncPeriod := timestamp - mVsyncTimeStamp v\<rparr> else v);
          v2 = v1\<lparr>mVsyncTimeStamp := timestamp\<rparr>
      in if mDesiredVsyncPeriod v2 = 0 then (True, v2)
         else
           (let error = (ucast (mDesiredVsyncPeriod v2 div 5) :: u32);
                diff32 = (ucast (mDesiredVsyncPeriod v2 - mVsyncPeriod v2) :: u32)
            in if \<bar>sint diff32\<bar> < sint error then (True, v2)
               else
                 (let signalTime = getSignalTime F (mModeSetFence v2)
                  in if signalTime \<noteq> SIGNAL_TIME_INVALID F \<and> signalTime \<noteq> SIGNAL_TIME_PENDING F
                        \<and> timestamp > signalTime + mVsyncPeriod v2 * scast (mTransientDuration v2)
                                         - scast error
                     then (True, v2\<lparr>mModeSetFence := - 1\<rparr>)
                     else (False, v2))))"

text \<open>
  Modelled from the spec: the setter \<^verbatim>\<open>setDesiredVsyncPeriod\<close> of the class
  header, which stores the period the reconciler compares against.
\<close>

definition setDesiredVsyncPeriod :: "u64 \<Rightarrow> ExynosVsyncCallback \<Rightarrow> ExynosVsyncCallback" where
  "setDesiredVsyncPeriod period v = v\<lparr>mDesiredVsyncPeriod := period\<rparr>"

subsection \<open>The display interface\<close>

record ExynosDisplayDrmInterface =
  modes :: "DrmMode list"
  mActiveModeState :: ModeState
  mDesiredModeState :: ModeState
  mIsResolutionSwitchInProgress :: bool
  mVsyncCallback :: ExynosVsyncCallback
  mDrmCrtc_id :: u32
  mDrmConnector_id :: u32
  active_property :: DrmProperty
  mode_property :: DrmProperty
  crtc_id_property :: DrmProperty
  mOperationRateManager :: bool
  configChangeCallback :: bool
  mLastDumpDrmAtomicMessageTime :: int

text \<open>The constructor of \<^verbatim>\<open>DrmModeAtomicReq\<close>.\<close>

definition newDrmModeAtomicReq :: "drm_device \<Rightarrow> DrmModeAtomicReq" where
  "newDrmModeAtomicReq D =
     \<lparr>mPset = drmModeAtomicAlloc D, mError = 0, mOldBlobs = [], mAckCallback = None\<rparr>"

text \<open>
  Modelled from the spec: \<^verbatim>\<open>setError\<close>, \<^verbatim>\<open>addOldBlob\<close> and
  \<^verbatim>\<open>destroyOldBlobs\<close> of the class header. A failed commit records its error for
  the diagnostic dump; blobs marked old during the transaction's lifetime are destroyed
  when the transaction is.
\<close>

definition setError :: "int \<Rightarrow> DrmModeAtomicReq \<Rightarrow> DrmModeAtomicReq" where
  "setError err r = r\<lparr>mError := err\<rparr>"

definition addOldBlob :: "u32 \<Rightarrow> DrmModeAtomicReq \<Rightarrow> DrmModeAtomicReq" where
  "addOldBlob b r = r\<lparr>mOldBlobs := mOldBlobs r @ [b]\<rparr>"

definition destroyOldBlobs :: "DrmModeAtomicReq \<Rightarrow> hw_call list \<Rightarrow> hw_call list" where
  "destroyOldBlobs r t = t @ map DestroyPropertyBlob (mOldBlobs r)"

text \<open>The destructor of \<^verbatim>\<open>DrmModeAtomicReq\<close>: what it does to the kernel.\<close>

definition deleteDrmModeAtomicReq :: "DrmModeAtomicReq \<Rightarrow> hw_call list \<Rightarrow> hw_call list" where
  "deleteDrmModeAtomicReq r t = destroyOldBlobs r t"

definition atomicAddProperty ::
  "drm_device \<Rightarrow> u32 \<Rightarrow> DrmProperty \<Rightarrow> u64 \<Rightarrow> bool \<Rightarrow> DrmModeAtomicReq
     \<Rightarrow> int \<times> DrmModeAtomicReq" where
  "atomicAddProperty D obj property v optional r =
     (if \<not> optional \<and> prop_id property = 0 then (- EINVAL, r)
      else if prop_id property \<noteq> 0 \<and> validateChange property v then
        (let (ret, pset) = drmModeAtomicAddProperty D (mPset r) obj (prop_id property) v
         in if ret < 0 then (ret, r\<lparr>mPset := pset\<rparr>) else (NO_ERROR, r\<lparr>mPset := pset\<rparr>))
      else (NO_ERROR, r))"

text \<open>\<^verbatim>\<open>writeIntToKernelFile\<close>: \<open>-1\<close> when the file does not open.\<close>

definition writeIntToKernelFile ::
  "drm_device \<Rightarrow> int \<Rightarrow> hw_call list \<Rightarrow> int \<times> hw_call list" where
  "writeIntToKernelFile D v t =
     (if \<not> kernelFileOpens D t then (- 1, t) else (0, t @ [WriteKernelFile v]))"

text \<open>\<^verbatim>\<open>ns2ms\<close>: C's division, which truncates.\<close>

definition ns2ms :: "int \<Rightarrow> int" where
  "ns2ms ns = sgn ns * (\<bar>ns\<bar> div 1000000)"

definition dumpDrmAtomicCommitMessage ::
  "drm_device \<Rightarrow> int \<Rightarrow> DrmModeAtomicReq \<Rightarrow> ExynosDisplayDrmInterface \<Rightarrow> hw_call list
     \<Rightarrow> ExynosDisplayDrmInterface \<times> hw_call list" where
  "dumpDrmAtomicCommitMessage D err r d t =
     (let now = systemTime D t;
          diffMs = ns2ms (now - mLastDumpDrmAtomicMessageTime d)
      in if diffMs < kAllowDumpDrmAtomicMessageTimeMs D then (d, t)
         else
           (let (w, t1) = writeIntToKernelFile D (kEnableDrmAtomicMessage D) t
            in if w \<noteq> 0 then (d, t1)
               else
                 (let ret = drmModeAtomicCommit D t1 (mPset r) DRM_MODE_ATOMIC_TEST_ONLY;
                      t2 = t1 @ [AtomicCommit (mPset r) DRM_MODE_ATOMIC_TEST_ONLY];
                      (w2, t3) = writeIntToKernelFile D (kDisableDrmDebugMessage D) t2
                  in (d\<lparr>mLastDumpDrmAtomicMessageTime := systemTime D t3\<rparr>, t3))))"

text \<open>
  \<^verbatim>\<open>commit(flags, loggingForDebug)\<close>. It returns the code with the request, the
  display interface and the trace. \<^verbatim>\<open>dumpAtomicCommitInfo\<close> only prints.
\<close>

definition commit ::
  "drm_device \<Rightarrow> u32 \<Rightarrow> bool \<Rightarrow> DrmModeAtomicReq \<Rightarrow> ExynosDisplayDrmInterface \<Rightarrow> hw_call list
     \<Rightarrow> int \<times> DrmModeAtomicReq \<times> ExynosDisplayDrmInterface \<times> hw_call list" where
  "commit D flags loggingForDebug r d t =
     (let ret0 = drmModeAtomicCommit D t (mPset r) flags;
          t1 = t @ [AtomicCommit (mPset r) flags];
          (ret, r1, d1, t2) =
            (if ret0 = - EPERM \<and> IsDrmInTUI D t1 then (NO_ERROR, r, d, t1)
             else if ret0 < 0 then
               (let (d', t') = (if ret0 = - EINVAL then dumpDrmAtomicCommitMessage D ret0 r d t1
                                else (d, t1))
                in (ret0, setError ret0 r, d', t'))
             else (ret0, r, d, t1));
          t3 = (case mAckCallback r1 of
                  None \<Rightarrow> t2
                | Some modeId \<Rightarrow>
                    if ret = 0 \<and> flags AND DRM_MODE_ATOMIC_TEST_ONLY = 0
                    then t2 @ [AckCallback modeId] else t2)
      in if mIsResolutionSwitchInProgress d1 \<and> \<not> needsModeSet (mDesiredModeState d1)
         then (ret, r1, d1\<lparr>mIsResolutionSwitchInProgress := False\<rparr>, t3 @ [SetVBlankOffDelay 1])
         else (ret, r1, d1, t3))"

definition createModeBlob ::
  "drm_device \<Rightarrow> DrmMode \<Rightarrow> hw_call list \<Rightarrow> (int \<times> u32) \<times> hw_call list" where
  "createModeBlob D m t =
     (let (ret, modeBlob) = CreatePropertyBlobResult D t m;
          t1 = t @ [CreatePropertyBlob m]
      in if ret \<noteq> 0 then ((ret, modeBlob), t1) else ((NO_ERROR, modeBlob), t1))"

text \<open>
  Modelled from the spec: \<^verbatim>\<open>ModeState::setMode\<close> of the class header. The new
  blob replaces the pending one; the superseded blob is handed to the transaction, which
  destroys it when it is gone.
\<close>

definition setMode ::
  "DrmMode \<Rightarrow> u32 \<Rightarrow> ModeState \<Rightarrow> DrmModeAtomicReq \<Rightarrow> ModeState \<times> DrmModeAtomicReq" where
  "setMode newMode modeBlob s r =
     (\<lparr>mode = newMode, blob_id = modeBlob, old_blob_id = blob_id s\<rparr>,
      addOldBlob (old_blob_id s) r)"

definition setDisplayMode ::
  "drm_device \<Rightarrow> u32 \<Rightarrow> u32 \<Rightarrow> ExynosDisplayDrmInterface \<Rightarrow> DrmModeAtomicReq
     \<Rightarrow> int \<times> DrmModeAtomicReq" where
  "setDisplayMode D modeBlob modeId d r =
     (let (ret1, r1) = atomicAddProperty D (mDrmCrtc_id d) (active_property d) 1 False r
      in if ret1 < 0 then (ret1, r1)
         else
           (let (ret2, r2) =
                  atomicAddProperty D (mDrmCrtc_id d) (mode_property d) (ucast modeBlob) False r1
            in if ret2 < 0 then (ret2, r2)
               else
                 (let (ret3, r3) =
                        atomicAddProperty D (mDrmConnector_id d) (crtc_id_property d)
                          (ucast (mDrmCrtc_id d)) False r2
                  in if ret3 < 0 then (ret3, r3)
                     else (NO_ERROR,
                           if configChangeCallback d then r3\<lparr>mAckCallback := Some modeId\<rparr>
                           else r3))))"

text \<open>
  \<^verbatim>\<open>setActiveConfigWithConstraints(config, test)\<close>. It returns the code, the
  transaction it built (\<open>None\<close> when it returned before it declared one; the
  transaction is destroyed at the return), the display interface and the trace.
\<close>

definition setActiveConfigWithConstraints ::
  "drm_device \<Rightarrow> u32 \<Rightarrow> bool \<Rightarrow> ExynosDisplayDrmInterface \<Rightarrow> hw_call list
     \<Rightarrow> int \<times> DrmModeAtomicReq option \<times> ExynosDisplayDrmInterface \<times> hw_call list" where
  "setActiveConfigWithConstraints D config test d t =
     (case find (\<lambda>m. mode_id m = config) (modes d) of
        None \<Rightarrow> (HWC2_ERROR_BAD_CONFIG, None, d, t)
      | Some newMode \<Rightarrow>
          if \<not> needsModeSet (mDesiredModeState d) \<and> blob_id (mActiveModeState d) \<noteq> 0
             \<and> mode_id (mode (mActiveModeState d)) = config
          then (HWC2_ERROR_NONE, None,
                d\<lparr>mVsyncCallback :=
                    setDesiredVsyncPeriod (te_period (mode (mActiveModeState d)))
                      (mVsyncCallback d)\<rparr>,
                t @ [VSyncControl True])
          else
            (let drmReq = newDrmModeAtomicReq D;
                 ((ret, modeBlob), t1) =
                   (if mode_id (mode (mDesiredModeState d)) \<noteq> config
                    then createModeBlob D newMode t else ((HWC2_ERROR_NONE, 0), t))
             in if ret \<noteq> NO_ERROR
                then (HWC2_ERROR_BAD_CONFIG, Some drmReq, d, deleteDrmModeAtomicReq drmReq t1)
                else
                  (let isResSwitch = (blob_id (mActiveModeState d) \<noteq> 0
                                      \<and> isFullModeSwitch (mActiveModeState d) newMode)
                   in if \<not> test then
                        (if modeBlob \<noteq> 0 then
                           (let full = isFullModeSwitch (mDesiredModeState d) newMode;
                                d1 = (if full then d\<lparr>mIsResolutionSwitchInProgress := True\<rparr>
                                      else d);
                                t2 = (if full then t1 @ [SetVBlankOffDelay 0] else t1);
                                (s, r1) = setMode newMode modeBlob (mDesiredModeState d1) drmReq;
                                d2 = d1\<lparr>mDesiredModeState := s\<rparr>;
                                t3 = (if mOperationRateManager d2
                                      then t2 @ [OperationRateOnConfig config,
                                                 HandleTargetOperationRate]
                                      else t2)
                            in (HWC2_ERROR_NONE, Some r1, d2, deleteDrmModeAtomicReq r1 t3))
                         else (HWC2_ERROR_NONE, Some drmReq, d,
                               deleteDrmModeAtomicReq drmReq t1))
                      else
                        (if \<not> isResSwitch then
                           (let (ret1, r1) =
                                  setDisplayMode D
                                    (if modeBlob \<noteq> 0 then modeBlob
                                     else blob_id (mDesiredModeState d))
                                    (if modeBlob \<noteq> 0 then mode_id newMode
                                     else mode_id (mode (mDesiredModeState d)))
                                    d drmReq
                            in if ret1 < 0 then (ret1, Some r1, d, deleteDrmModeAtomicReq r1 t1)
                               else
                                 (let (ret2, r2, d2, t2) =
                                        commit D DRM_MODE_ATOMIC_TEST_ONLY True r1 d t1
                                  in if ret2 \<noteq> 0
                                     then (let r3 = addOldBlob modeBlob r2
                                           in (ret2, Some r3, d2, deleteDrmModeAtomicReq r3 t2))
                                     else
                                       (let t3 = (if modeBlob \<noteq> 0
                                                  then t2 @ [DestroyPropertyBlob modeBlob]
                                                  else t2)
                                        in (HWC2_ERROR_NONE, Some r2, d2,
                                            deleteDrmModeAtomicReq r2 t3))))
                         else
                           (let t3 = (if modeBlob \<noteq> 0
                                      then t1 @ [DestroyPropertyBlob modeBlob] else t1)
                            in (HWC2_ERROR_NONE, Some drmReq, d,
                                deleteDrmModeAtomicReq drmReq t3))))))"

subsection \<open>Notions the properties are stated with\<close>

text \<open>The kernel calls of a trace that create a framebuffer.\<close>

fun is_creation :: "drm_call \<Rightarrow> bool" where
  "is_creation (AddFB2WithModifiers req) = True"
| "is_creation (PrimeFDToHandle fd h) = False"
| "is_creation (GemClose h) = False"

definition creation_calls :: "drm_call list \<Rightarrow> nat" where
  "creation_calls t = length (filter is_creation t)"

text \<open>The kernel calls of a trace that create a property blob.\<close>

fun is_blob_creation :: "hw_call \<Rightarrow> bool" where
  "is_blob_creation (CreatePropertyBlob m) = True"
| "is_blob_creation c = False"

definition blob_creations :: "hw_call list \<Rightarrow> nat" where
  "blob_creations t = length (filter is_blob_creation t)"

text \<open>The GEM handles that a trace opens, and those it closes.\<close>

fun opened_handles :: "drm_call list \<Rightarrow> u32 list" where
  "opened_handles [] = []"
| "opened_handles (PrimeFDToHandle fd h # t) =
     (if h = 0 then opened_handles t else h # opened_handles t)"
| "opened_handles (c # t) = opened_handles t"

fun closed_handles :: "drm_call list \<Rightarrow> u32 list" where
  "closed_handles [] = []"
| "closed_handles (GemClose h # t) = h # closed_handles t"
| "closed_handles (c # t) = closed_handles t"

text \<open>The cache and the cap that \<^verbatim>\<open>getBuffer\<close> selects by \<^verbatim>\<open>isSecureBuffer\<close>.\<close>

definition cache_of :: "bool \<Rightarrow> FramebufferManager \<Rightarrow> layer_map" where
  "cache_of isSecureBuffer m =
     (if \<not> isSecureBuffer then mCachedLayerBuffers m else mCachedSecureLayerBuffers m)"

definition cap_of :: "platform \<Rightarrow> bool \<Rightarrow> nat" where
  "cap_of P isSecureBuffer =
     (if \<not> isSecureBuffer then MAX_CACHED_BUFFERS_PER_LAYER P
      else MAX_CACHED_SECURE_BUFFERS_PER_LAYER P)"

text \<open>The identity under which \<^verbatim>\<open>getBuffer\<close> looks a configuration up and caches
  it, and the id that the lookup finds (0 for none).\<close>

definition requested_identity :: "platform \<Rightarrow> exynos_win_config_data \<Rightarrow> BufferIdentity" where
  "requested_identity P config =
     (if state config = WIN_STATE_COLOR then SolidColorDesc (dst_w config) (dst_h config)
      else BufferDesc (buffer_id config)
             (case halFormatToExynosFormat P (format config) (comp_info_type config) of
                None \<Rightarrow> DRM_FORMAT_UNDEFINED | Some f \<Rightarrow> drmFormat f)
             (protection config))"

definition lookup_id :: "platform \<Rightarrow> exynos_win_config_data \<Rightarrow> FramebufferManager \<Rightarrow> u32" where
  "lookup_id P config m =
     fst (findCachedFbId (layer config) (protection config)
            (\<lambda>buffer. identity buffer = requested_identity P config) m)"

text \<open>The configurations that pass the checks of \<^verbatim>\<open>getBuffer\<close> before its lookup.\<close>

definition request_ok :: "platform \<Rightarrow> exynos_win_config_data \<Rightarrow> bool" where
  "request_ok P config =
     (state config = WIN_STATE_COLOR
      \<or> ((state config = WIN_STATE_BUFFER \<or> state config = WIN_STATE_RCD)
         \<and> (case halFormatToExynosFormat P (format config) (comp_info_type config) of
               None \<Rightarrow> False
             | Some f \<Rightarrow> drmFormat f \<noteq> DRM_FORMAT_UNDEFINED \<and> bufferNum f \<noteq> 0
                  \<and> planeNum f \<noteq> 0 \<and> planeNum f \<le> MAX_PLANE_NUM)))"

text \<open>The manager after \<^verbatim>\<open>getBuffer\<close> has cached a new framebuffer \<open>fid\<close> under
  the identity \<open>ident\<close>.\<close>

definition cached_state ::
  "platform \<Rightarrow> exynos_win_config_data \<Rightarrow> BufferIdentity \<Rightarrow> u32 \<Rightarrow> FramebufferManager
    \<Rightarrow> FramebufferManager" where
  "cached_state P config ident fid m =
     (let m1 = markInuseLayerLocked (layer config) (protection config) m;
          prior = bucket_at (layer config) (cache_of (protection config) m);
          over = length prior > cap_of P (protection config);
          fb = \<lparr>drmFd = mDrmFd m, fbId = fid, identity = ident\<rparr>;
          m2 = (if over then m1\<lparr>mCleanBuffers := mCleanBuffers m1 @ prior\<rparr> else m1);
          kept = (if over then [] else prior)
      in if \<not> protection config
         then m2\<lparr>mCachedLayerBuffers :=
                 map_put (layer config) (fb # kept) (mCachedLayerBuffers m2)\<rparr>
         else m2\<lparr>mCachedSecureLayerBuffers :=
                 map_put (layer config) (fb # kept) (mCachedSecureLayerBuffers m2)\<rparr>)"


subsection \<open>Sample states\<close>

definition sample_fb :: "u32 \<Rightarrow> u64 \<Rightarrow> bool \<Rightarrow> Framebuffer" where
  "sample_fb i b s = \<lparr>drmFd = 3, fbId = i, identity = BufferDesc b 0x34324241 s\<rparr>"

text \<open>A manager that caches one buffer of layer 1 and one secure buffer of layer 2.\<close>

definition sample_manager :: FramebufferManager where
  "sample_manager =
     \<lparr>mDrmFd = 3,
      mCachedLayerBuffers = [(1, [sample_fb 101 7 False])],
      mCachedSecureLayerBuffers = [(2, [sample_fb 102 8 True])],
      mCleanBuffers = [],
      mCacheShrinkPending = False, mCacheSecureShrinkPending = False,
      mCachedLayersInuse = {}, mCachedSecureLayersInuse = {}\<rparr>"

text \<open>A manager with empty caches whose reclaim list still holds one framebuffer, as
  \<^verbatim>\<open>cleanup\<close> of a destroyed layer leaves it.\<close>

definition drained_manager :: FramebufferManager where
  "drained_manager =
     \<lparr>mDrmFd = 3, mCachedLayerBuffers = [], mCachedSecureLayerBuffers = [],
      mCleanBuffers = [sample_fb 103 9 False],
      mCacheShrinkPending = False, mCacheSecureShrinkPending = False,
      mCachedLayersInuse = {}, mCachedSecureLayersInuse = {}\<rparr>"

text \<open>
  A platform for the samples: file descriptors 10 to 19 resolve to a GEM handle, the
  kernel creates every framebuffer it is asked for and numbers it by the calls made so
  far, format 1 has one buffer and format 2 has two.
\<close>

definition sample_platform :: platform where
  "sample_platform =
     \<lparr>drmPrimeFDToHandle = (\<lambda>t fd. if 10 \<le> fd \<and> fd < 20 then (0, word_of_int (fd - 5)) else (- 1, 0)),
      drmModeAddFB2WithModifiers = (\<lambda>t req. (0, 200 + of_nat (length t))),
      drmIoctl_GEM_CLOSE = (\<lambda>t h. 0),
      halFormatToExynosFormat =
        (\<lambda>f c. if f = 1 then Some \<lparr>drmFormat = 0x34324241, bufferNum = 1, planeNum = 1\<rparr>
               else if f = 2 then Some \<lparr>drmFormat = 0x3231564E, bufferNum = 2, planeNum = 2\<rparr>
               else None),
      getBytePerPixelOfPrimaryPlane = (\<lambda>f. if f = 2 then 1 else 4),
      getExynosBufferYLength = (\<lambda>w h f. w * h),
      DRM_FORMAT_MOD_PROTECTION = 0x0C00000000000020,
      DRM_FORMAT_MOD_SAMSUNG_COLORMAP = 0x0C00000000000010,
      AFBC_FORMAT_MOD_SOURCE_G2D = 0x0040000000000000,
      AFBC_FORMAT_MOD_SOURCE_GPU = 0x0080000000000000,
      DRM_FORMAT_MOD_ARM_AFBC = (\<lambda>x. 0x0800000000000000 OR x),
      DRM_FORMAT_MOD_SAMSUNG_SBWC = (\<lambda>x. 0x0C00000000000000 OR x),
      MAX_CACHED_LAYERS = 16,
      MAX_CACHED_SECURE_LAYERS = 1,
      MAX_CACHED_BUFFERS_PER_LAYER = 32,
      MAX_CACHED_SECURE_BUFFERS_PER_LAYER = 3\<rparr>"

definition sample_config :: exynos_win_config_data where
  "sample_config =
     \<lparr>state = WIN_STATE_BUFFER, src_f_w = 1080, src_f_h = 2400, dst_w = 1080, dst_h = 2400,
      format = 1, comp_info_type = COMP_TYPE_NONE, comp_info_modifier = 0,
      comp_src = DPP_COMP_SRC_NONE, fd_idma = [10, - 1, - 1],
      layer = 1, buffer_id = 12, protection = False\<rparr>"

definition untracked_config :: exynos_win_config_data where
  "untracked_config = sample_config\<lparr>layer := 0, buffer_id := 0\<rparr>"

definition two_buffer_config :: exynos_win_config_data where
  "two_buffer_config = sample_config\<lparr>format := 2, fd_idma := [10, 99, - 1]\<rparr>"

definition secure_config :: exynos_win_config_data where
  "secure_config = sample_config\<lparr>layer := 2, protection := True\<rparr>"

definition full_secure_manager :: FramebufferManager where
  "full_secure_manager =
     sample_manager\<lparr>mCachedSecureLayerBuffers :=
       [(2, [sample_fb 104 10 True, sample_fb 103 9 True, sample_fb 102 8 True])]\<rparr>"

definition over_secure_manager :: FramebufferManager where
  "over_secure_manager =
     sample_manager\<lparr>mCachedSecureLayerBuffers :=
       [(2, [sample_fb 105 11 True, sample_fb 104 10 True, sample_fb 103 9 True,
             sample_fb 102 8 True])]\<rparr>"

definition sample_request :: "u64 \<Rightarrow> addfb2_request" where
  "sample_request modifier =
     \<lparr>fb_width = 1080, fb_height = 2400, fb_format = 0x34324241,
      fb_handles = [5, 0, 0, 0], fb_pitches = [4320, 0, 0, 0], fb_offsets = [0, 0, 0, 0],
      fb_modifier = [modifier, 0, 0, 0], fb_flags = (if modifier \<noteq> 0 then 2 else 0)\<rparr>"

definition sample_trace :: "u64 \<Rightarrow> drm_call list" where
  "sample_trace modifier =
     [PrimeFDToHandle 10 5, AddFB2WithModifiers (sample_request modifier), GemClose 5]"

text \<open>A device that accepts every commit, and a display whose active mode is mode 1
  with blob 40 and that has no mode change pending.\<close>

definition sample_device :: drm_device where
  "sample_device =
     \<lparr>drmModeAtomicAlloc = Some \<lparr>cursor = 0, size_items = 0, items = []\<rparr>,
      drmModeAtomicAddProperty =
        (\<lambda>p obj pid v. case p of
            None \<Rightarrow> (- 22, None)
          | Some q \<Rightarrow>
              (uint (cursor q) + 1,
               Some (q\<lparr>cursor := cursor q + 1, size_items := size_items q + 1,
                       items := items q @ [\<lparr>object_id = obj, property_id = pid, item_value = v\<rparr>]\<rparr>))),
      drmModeAtomicCommit = (\<lambda>t p flags. 0),
      IsDrmInTUI = (\<lambda>t. False),
      CreatePropertyBlobResult = (\<lambda>t m. (0, 41 + of_nat (length t))),
      DestroyPropertyBlobResult = (\<lambda>t b. 0),
      systemTime = (\<lambda>t. 5000000000),
      kernelFileOpens = (\<lambda>t. True),
      kAllowDumpDrmAtomicMessageTimeMs = 1000,
      kEnableDrmAtomicMessage = 16,
      kDisableDrmDebugMessage = 0\<rparr>"

text \<open>The kernel rejects every commit with the given code; the second argument tells
  whether the device is in the trusted user interface.\<close>

definition rejecting_device :: "int \<Rightarrow> bool \<Rightarrow> drm_device" where
  "rejecting_device code tui =
     sample_device\<lparr>drmModeAtomicCommit := (\<lambda>t p flags. code), IsDrmInTUI := (\<lambda>t. tui)\<rparr>"

definition sample_mode :: "u32 \<Rightarrow> DrmMode" where
  "sample_mode i = \<lparr>mode_id = i, h_display = 1080, v_display = 2400, timing_class = 0,
                     te_period = 16666666\<rparr>"

definition sample_vsync :: ExynosVsyncCallback where
  "sample_vsync = \<lparr>mVsyncTimeStamp = 0, mVsyncPeriod = 16666666, mDesiredVsyncPeriod = 0,
                    mModeSetFence = - 1, mTransientDuration = 2\<rparr>"

definition sample_display :: ExynosDisplayDrmInterface where
  "sample_display =
     \<lparr>modes = [sample_mode 1, sample_mode 2],
      mActiveModeState = \<lparr>mode = sample_mode 1, blob_id = 40, old_blob_id = 0\<rparr>,
      mDesiredModeState = \<lparr>mode = sample_mode 0, blob_id = 0, old_blob_id = 0\<rparr>,
      mIsResolutionSwitchInProgress = False,
      mVsyncCallback = sample_vsync,
      mDrmCrtc_id = 60, mDrmConnector_id = 70,
      active_property = \<lparr>prop_id = 21, prop_value = 0\<rparr>,
      mode_property = \<lparr>prop_id = 22, prop_value = 0\<rparr>,
      crtc_id_property = \<lparr>prop_id = 23, prop_value = 0\<rparr>,
      mOperationRateManager = False,
      configChangeCallback = False,
      mLastDumpDrmAtomicMessageTime = 0\<rparr>"

definition sample_clock :: fence_clock where
  "sample_clock = \<lparr>getSignalTime = (\<lambda>fence. if fence = 9 then 1000000000
                                             else if fence = 8 then 900000000 else - 1),
                    SIGNAL_TIME_INVALID = - 1,
                    SIGNAL_TIME_PENDING = 0x7FFFFFFFFFFFFFFF\<rparr>"

text \<open>A callback whose time stamp was reset: the stored period is that of the old mode.\<close>

definition reset_vsync :: ExynosVsyncCallback where
  "reset_vsync = \<lparr>mVsyncTimeStamp = 0, mVsyncPeriod = 16666666,
                   mDesiredVsyncPeriod = 16666666, mModeSetFence = - 1,
                   mTransientDuration = 2\<rparr>"

text \<open>A callback in the middle of a switch from 60 Hz to 120 Hz.\<close>

definition switching_vsync :: ExynosVsyncCallback where
  "switching_vsync = \<lparr>mVsyncTimeStamp = 1000000000, mVsyncPeriod = 16666666,
                       mDesiredVsyncPeriod = 8333333, mModeSetFence = 9,
                       mTransientDuration = 2\<rparr>"

section \<open>Properties\<close>

lemma spliceAll_eq: "spliceAll m cb = cb @ all_buffers m"
  by (induction m cb rule: spliceAll.induct) (auto simp: all_buffers_def)

lemma spliceUnused_buffers:
  "spliceUnused inuse m cb = (kept, cb') \<Longrightarrow>
     set cb' \<union> set (all_buffers kept) = set cb \<union> set (all_buffers m)"
proof (induction inuse m cb arbitrary: kept cb' rule: spliceUnused.induct)
  case (1 inuse cb)
  then show ?case by (simp add: all_buffers_def)
next
  case (2 inuse l b rest cb)
  show ?case
  proof (cases "l \<in> inuse")
    case True
    obtain k c where kc: "spliceUnused inuse rest cb = (k, c)"
      by (cases "spliceUnused inuse rest cb")
    with 2 True have "kept = (l, b) # k" "cb' = c" by auto
    moreover from "2.IH"(2) [OF _ kc] True
    have "set c \<union> set (all_buffers k) = set cb \<union> set (all_buffers rest)" by simp
    ultimately show ?thesis by (auto simp: all_buffers_def)
  next
    case False
    with 2 have "spliceUnused inuse rest (cb @ b) = (kept, cb')" by simp
    from "2.IH"(1) [OF _ this] False
    have "set cb' \<union> set (all_buffers kept) = set (cb @ b) \<union> set (all_buffers rest)" by simp
    then show ?thesis by (auto simp: all_buffers_def)
  qed
qed

lemma spliceUnused_prefix: "\<exists>mv. snd (spliceUnused inuse m cb) = cb @ mv"
proof (induction inuse m cb rule: spliceUnused.induct)
  case (1 inuse cb)
  then show ?case by simp
next
  case (2 inuse l b rest cb)
  then show ?case by (auto split: prod.splits)
qed

lemma destroyUnusedLayers_buffers:
  "destroyUnusedLayers p inuse c cb = (r, inuse', kept, cb') \<Longrightarrow>
     set cb' \<union> set (all_buffers kept) = set cb \<union> set (all_buffers c)"
  by (auto simp: destroyUnusedLayers_def split: if_splits prod.splits dest: spliceUnused_buffers)

lemma destroyUnusedLayers_prefix:
  "\<exists>mv. snd (snd (snd (destroyUnusedLayers p inuse c cb))) = cb @ mv"
  using spliceUnused_prefix [of inuse c cb]
  by (auto simp: destroyUnusedLayers_def split: prod.splits)

lemma destroyUnusedLayersLocked_secure:
  "set (all_buffers (mCachedSecureLayerBuffers m))
     \<subseteq> set (mCleanBuffers (destroyUnusedLayersLocked m))
        \<union> set (all_buffers (mCachedSecureLayerBuffers (destroyUnusedLayersLocked m)))"
proof -
  obtain r1 i1 c1 cb1 where a:
    "destroyUnusedLayers (mCacheShrinkPending m) (mCachedLayersInuse m)
       (mCachedLayerBuffers m) (mCleanBuffers m) = (r1, i1, c1, cb1)"
    by (metis prod_cases4)
  obtain r2 i2 c2 cb2 where b:
    "destroyUnusedLayers (mCacheSecureShrinkPending m) (mCachedSecureLayersInuse m)
       (mCachedSecureLayerBuffers m) cb1 = (r2, i2, c2, cb2)"
    by (metis prod_cases4)
  from destroyUnusedLayers_buffers [OF b]
  have "set (all_buffers (mCachedSecureLayerBuffers m)) \<subseteq> set cb2 \<union> set (all_buffers c2)"
    by auto
  then show ?thesis by (simp add: destroyUnusedLayersLocked_def a b)
qed

lemma destroyUnusedLayersLocked_prefix:
  "\<exists>mv. mCleanBuffers (destroyUnusedLayersLocked m) = mCleanBuffers m @ mv"
proof -
  obtain r1 i1 c1 cb1 where a:
    "destroyUnusedLayers (mCacheShrinkPending m) (mCachedLayersInuse m)
       (mCachedLayerBuffers m) (mCleanBuffers m) = (r1, i1, c1, cb1)"
    by (metis prod_cases4)
  obtain r2 i2 c2 cb2 where b:
    "destroyUnusedLayers (mCacheSecureShrinkPending m) (mCachedSecureLayersInuse m)
       (mCachedSecureLayerBuffers m) cb1 = (r2, i2, c2, cb2)"
    by (metis prod_cases4)
  have c: "mCleanBuffers (destroyUnusedLayersLocked m) = cb2"
    by (simp add: destroyUnusedLayersLocked_def a b)
  from destroyUnusedLayers_prefix [of "mCacheShrinkPending m" "mCachedLayersInuse m"
      "mCachedLayerBuffers m" "mCleanBuffers m"] a
  obtain mv1 where "cb1 = mCleanBuffers m @ mv1" by auto
  moreover from destroyUnusedLayers_prefix [of "mCacheSecureShrinkPending m"
      "mCachedSecureLayersInuse m" "mCachedSecureLayerBuffers m" cb1] b
  obtain mv2 where "cb2 = cb1 @ mv2" by auto
  ultimately show ?thesis using c by simp
qed

lemmas flip_defs =
  flip_def destroyUnusedLayersLocked_def destroyUnusedLayers_def
  destroyAllSecureBuffersLocked_def sample_manager_def drained_manager_def sample_fb_def

subsection \<open>Secure isolation\<close>

text \<open>
  C2. Whatever the caches hold, after \<^verbatim>\<open>flip\<close> with \<open>hasSecureBuffer = false\<close> the
  secure cache is empty, and every framebuffer it held, for every layer, is on the
  reclaim list.
\<close>

theorem flip_secure_isolation:
  "mCachedSecureLayerBuffers (fst (flip False m)) = []
   \<and> set (all_buffers (mCachedSecureLayerBuffers m))
       \<subseteq> set (mCleanBuffers (fst (flip False m)))"
  using destroyUnusedLayersLocked_secure [of m]
  by (auto simp: flip_def Let_def destroyAllSecureBuffersLocked_def spliceAll_eq)

theorem flip_secure_isolation_witness:
  "mCachedSecureLayerBuffers (fst (flip False sample_manager)) = []
   \<and> sample_fb 102 8 True \<in> set (mCleanBuffers (fst (flip False sample_manager)))"
proof -
  have "sample_fb 102 8 True \<in> set (all_buffers (mCachedSecureLayerBuffers sample_manager))"
    by (simp add: sample_manager_def all_buffers_def)
  with flip_secure_isolation [of sample_manager] show ?thesis by blast
qed

subsection \<open>When flip signals\<close>

text \<open>
  C8, as the code has it. \<^verbatim>\<open>flip\<close> only appends to the reclaim list, and it signals
  \<^verbatim>\<open>mFlipDone\<close> exactly when the list is not empty after the call: when the list
  already held a framebuffer, or when this call moved one there. It never signals when
  the list is empty after the call.
\<close>

theorem flip_signal:
  "\<exists>moved. mCleanBuffers (fst (flip hasSecureBuffer m)) = mCleanBuffers m @ moved
     \<and> (snd (flip hasSecureBuffer m) \<longleftrightarrow> (mCleanBuffers m \<noteq> [] \<or> moved \<noteq> []))"
proof -
  obtain mv where mv: "mCleanBuffers (destroyUnusedLayersLocked m) = mCleanBuffers m @ mv"
    using destroyUnusedLayersLocked_prefix by blast
  show ?thesis
  proof (cases hasSecureBuffer)
    case True
    with mv show ?thesis by (auto simp: flip_def Let_def)
  next
    case False
    let ?x = "all_buffers (mCachedSecureLayerBuffers (destroyUnusedLayersLocked m))"
    have "mCleanBuffers (fst (flip hasSecureBuffer m)) = mCleanBuffers m @ (mv @ ?x)"
      using False mv
      by (simp add: flip_def Let_def destroyAllSecureBuffersLocked_def spliceAll_eq)
    moreover have "snd (flip hasSecureBuffer m) \<longleftrightarrow> (mCleanBuffers m \<noteq> [] \<or> mv @ ?x \<noteq> [])"
      using False mv
      by (auto simp: flip_def Let_def destroyAllSecureBuffersLocked_def spliceAll_eq)
    ultimately show ?thesis by blast
  qed
qed

theorem flip_signal_witness:
  "snd (flip False sample_manager)
   \<and> mCleanBuffers (fst (flip False sample_manager)) = [sample_fb 102 8 True]
   \<and> snd (flip True sample_manager) = False"
  using flip_signal [of False sample_manager] flip_signal [of True sample_manager]
  by (simp add: flip_defs)

text \<open>
  The claim as the spec words it fails: the reclaim list of \<open>drained_manager\<close> was
  not empty before the call, the call moves nothing, and it signals all the same.
\<close>

theorem flip_signal_counterexample:
  "snd (flip True drained_manager)
   \<and> mCleanBuffers drained_manager \<noteq> []
   \<and> mCleanBuffers (fst (flip True drained_manager)) = mCleanBuffers drained_manager"
  by (simp add: flip_defs)

subsection \<open>What getBuffer does on a hit and on a miss\<close>

lemma bucket_at_map_put [simp]: "bucket_at k (map_put k b m) = b"
  by (induction m) (auto simp: bucket_at_def)

lemma markInuse_fields [simp]:
  "mCachedLayerBuffers (markInuseLayerLocked l s m) = mCachedLayerBuffers m"
  "mCachedSecureLayerBuffers (markInuseLayerLocked l s m) = mCachedSecureLayerBuffers m"
  "mCleanBuffers (markInuseLayerLocked l s m) = mCleanBuffers m"
  "mDrmFd (markInuseLayerLocked l s m) = mDrmFd m"
  by (simp_all add: markInuseLayerLocked_def Let_def)

lemma creation_calls_append [simp]:
  "creation_calls (t @ u) = creation_calls t + creation_calls u"
  by (simp add: creation_calls_def)

lemma creation_calls_single [simp]:
  "creation_calls [AddFB2WithModifiers r] = 1"
  by (simp add: creation_calls_def)

lemma creation_calls_freeHandles [simp]:
  "creation_calls (freeHandles P is hs t) = creation_calls t"
  by (induction "is" arbitrary: t) (simp_all add: freeBufHandle_def creation_calls_def)

lemma creation_calls_resolveHandles:
  "resolveHandles P config bpp is a t = (ok, a', t') \<Longrightarrow> creation_calls t' = creation_calls t"
proof (induction "is" arbitrary: a t)
  case Nil
  then show ?case by simp
next
  case (Cons i "is")
  then show ?case
    by (auto simp: getBufHandleFromFd_def Let_def creation_calls_def split: prod.splits if_splits)
qed

lemma addFB2_ret0:
  assumes "addFB2WithModifiers P st req fb0 t = ((0, fid), t1)"
  shows "t1 = t @ [AddFB2WithModifiers req]"
  using assms by (auto simp: addFB2WithModifiers_def EINVAL_def split: if_splits)

lemma createAndCache_ret0:
  assumes "createAndCache P config w h fmt bn a fb0 m t = ((0, fid), m', t')"
  shows "t' = freeHandles P [0..<bn] (handles a) (t @ [AddFB2WithModifiers (fb_request w h fmt a)])"
    and "m' = (if layer config \<noteq> 0 \<or> buffer_id config \<noteq> 0
               then cached_state P config
                      (if state config = WIN_STATE_COLOR then SolidColorDesc w h
                       else BufferDesc (buffer_id config) fmt (protection config)) fid m
               else m)"
proof -
  obtain ret fid1 t1 where r:
    "addFB2WithModifiers P (state config) (fb_request w h fmt a) fb0 t = ((ret, fid1), t1)"
    by (metis prod.exhaust)
  from assms r have z: "ret = 0" "fid1 = fid"
    by (auto simp: createAndCache_def Let_def split: if_splits)
  with r have t1: "t1 = t @ [AddFB2WithModifiers (fb_request w h fmt a)]"
    using addFB2_ret0 by blast
  show "t' = freeHandles P [0..<bn] (handles a) (t @ [AddFB2WithModifiers (fb_request w h fmt a)])"
    using assms r z t1
    by (auto simp: createAndCache_def Let_def split: if_splits)
  show "m' = (if layer config \<noteq> 0 \<or> buffer_id config \<noteq> 0
               then cached_state P config
                      (if state config = WIN_STATE_COLOR then SolidColorDesc w h
                       else BufferDesc (buffer_id config) fmt (protection config)) fid m
               else m)"
    using assms r z
    by (auto simp: createAndCache_def Let_def cache_of_def cap_of_def cached_state_def
         split: if_splits)
qed

lemma findCachedFbId_snd [simp]:
  "snd (findCachedFbId l s p m) = markInuseLayerLocked l s m"
  by (simp add: findCachedFbId_def Let_def)

lemma getBuffer_success_ok:
  "getBuffer P config x m t = Some ((0, fid), m', t') \<Longrightarrow> request_ok P config"
  by (auto simp: getBuffer_def request_ok_def Let_def EINVAL_def
      split: if_splits option.splits)

lemma getBuffer_hit:
  assumes "request_ok P config" and "lookup_id P config m \<noteq> 0"
  shows "getBuffer P config x m t =
           Some ((NO_ERROR, lookup_id P config m),
                 markInuseLayerLocked (layer config) (protection config) m, t)"
proof (cases "state config = WIN_STATE_COLOR")
  case True
  with assms show ?thesis
    by (simp add: getBuffer_def lookup_id_def requested_identity_def Let_def case_prod_beta)
next
  case False
  with assms(1) obtain f where f:
    "state config = WIN_STATE_BUFFER \<or> state config = WIN_STATE_RCD"
    "halFormatToExynosFormat P (format config) (comp_info_type config) = Some f"
    "drmFormat f \<noteq> DRM_FORMAT_UNDEFINED" "bufferNum f \<noteq> 0" "planeNum f \<noteq> 0"
    "planeNum f \<le> MAX_PLANE_NUM"
    by (auto simp: request_ok_def split: option.splits)
  with assms(2) False show ?thesis
    by (simp add: getBuffer_def lookup_id_def requested_identity_def Let_def case_prod_beta)
qed

lemma getBuffer_miss:
  assumes "getBuffer P config x m t = Some ((0, fid), m', t')"
    and "lookup_id P config m = 0"
  shows "creation_calls t' = Suc (creation_calls t)
         \<and> m' = (if layer config \<noteq> 0 \<or> buffer_id config \<noteq> 0
                  then cached_state P config (requested_identity P config) fid
                         (markInuseLayerLocked (layer config) (protection config) m)
                  else markInuseLayerLocked (layer config) (protection config) m)"
proof (cases "state config = WIN_STATE_COLOR")
  case True
  let ?m1 = "markInuseLayerLocked (layer config) (protection config) m"
  from assms True have c:
    "createAndCache P config (dst_w config) (dst_h config) DRM_FORMAT_BGRA8888 0
       (colorArrays P config (declaredArrays P config)) 0 ?m1 t = ((0, fid), m', t')"
    by (simp add: getBuffer_def lookup_id_def requested_identity_def Let_def case_prod_beta)
  from createAndCache_ret0 [OF c] True show ?thesis
    by (simp add: requested_identity_def)
next
  case False
  let ?m1 = "markInuseLayerLocked (layer config) (protection config) m"
  from getBuffer_success_ok [OF assms(1)] False obtain f where f:
    "state config = WIN_STATE_BUFFER \<or> state config = WIN_STATE_RCD"
    "halFormatToExynosFormat P (format config) (comp_info_type config) = Some f"
    "drmFormat f \<noteq> DRM_FORMAT_UNDEFINED" "bufferNum f \<noteq> 0" "planeNum f \<noteq> 0"
    "planeNum f \<le> MAX_PLANE_NUM"
    by (auto simp: request_ok_def split: option.splits)
  obtain ok a2 t1 where rh:
    "resolveHandles P config (getBytePerPixelOfPrimaryPlane P (format config))
       [0..<bufferNum f] (compressionModifier P config (declaredArrays P config)) t = (ok, a2, t1)"
    by (metis prod_cases3)
  from assms False f rh have ok: ok
    by (auto simp: getBuffer_def lookup_id_def requested_identity_def Let_def case_prod_beta
        ENOMEM_def split: if_splits)
  from assms False f rh ok have c:
    "createAndCache P config (src_f_w config) (src_f_h config) (drmFormat f) (bufferNum f)
       (sharePlanes P config f a2) 0 ?m1 t1 = ((0, fid), m', t')"
    by (auto simp: getBuffer_def lookup_id_def requested_identity_def Let_def case_prod_beta
        split: if_splits)
  from creation_calls_resolveHandles [OF rh] createAndCache_ret0 [OF c] False f
  show ?thesis by (simp add: requested_identity_def)
qed


lemmas sample_defs =
  over_secure_manager_def sample_request_def sample_trace_def
  sample_platform_def sample_config_def untracked_config_def two_buffer_config_def
  secure_config_def full_secure_manager_def sample_manager_def sample_fb_def

lemma declaredArrays_eq:
  "declaredArrays P config =
     \<lparr>pitches = [0, 0, 0, 0], offsets = [0, 0, 0, 0],
      modifiers = [if protection config then DRM_FORMAT_MOD_PROTECTION P else 0, 0, 0, 0],
      handles = [0, 0, 0, 0]\<rparr>"
  by (simp add: declaredArrays_def HWC_DRM_BO_MAX_PLANES_def eval_nat_numeral)

lemmas getBuffer_defs =
  getBuffer_def findCachedFbId_def markInuseLayerLocked_def bucket_at_def
  declaredArrays_eq compressionModifier_def sharePlanes_def colorArrays_def
  createAndCache_def fb_request_def addFB2WithModifiers_def validateLayerInfo_def
  getBufHandleFromFd_def freeBufHandle_def
  HWC_DRM_BO_MAX_PLANES_def MAX_PLANE_NUM_def DRM_FORMAT_UNDEFINED_def
  NO_ERROR_def ENOMEM_def EINVAL_def DRM_MODE_FB_MODIFIERS_def upt_rec


lemma lookup_id_eq:
  "lookup_id P config m =
     (case find (\<lambda>b. identity b = requested_identity P config)
             (bucket_at (layer config) (cache_of (protection config) m)) of
        None \<Rightarrow> 0 | Some fb \<Rightarrow> fbId fb)"
  by (simp add: lookup_id_def findCachedFbId_def Let_def cache_of_def)

lemma cache_of_markInuse [simp]:
  "cache_of s (markInuseLayerLocked l s' m) = cache_of s m"
  by (simp add: cache_of_def)

lemma lookup_id_markInuse [simp]:
  "lookup_id P config (markInuseLayerLocked l s m) = lookup_id P config m"
  by (simp add: lookup_id_eq)

lemma cached_state_bucket:
  "bucket_at (layer config) (cache_of (protection config) (cached_state P config ident fid m)) =
     \<lparr>drmFd = mDrmFd m, fbId = fid, identity = ident\<rparr>
       # (if length (bucket_at (layer config) (cache_of (protection config) m))
               > cap_of P (protection config)
          then [] else bucket_at (layer config) (cache_of (protection config) m))"
  by (simp add: cached_state_def cache_of_def Let_def)

lemma cached_state_clean:
  "mCleanBuffers (cached_state P config ident fid m) =
     mCleanBuffers m
       @ (if length (bucket_at (layer config) (cache_of (protection config) m))
               > cap_of P (protection config)
          then bucket_at (layer config) (cache_of (protection config) m) else [])"
  by (simp add: cached_state_def cache_of_def Let_def)


lemma getBuffer_created_miss:
  assumes "getBuffer P config x m t = Some ((0, fid), m', t')"
    and "creation_calls t < creation_calls t'"
  shows "lookup_id P config m = 0"
proof (rule ccontr)
  assume nz: "lookup_id P config m \<noteq> 0"
  from getBuffer_hit [OF getBuffer_success_ok [OF assms(1)] nz, of x t] assms
  show False by simp
qed

subsection \<open>Cache idempotence\<close>





subsection \<open>The cap of a bucket\<close>

text \<open>
  C3, as the code has it. When a call of \<^verbatim>\<open>getBuffer\<close> creates a framebuffer and
  caches it, the size of the layer's bucket is compared with the cap before the
  insertion: if the bucket already holds more entries than the cap, all of them are
  appended to the reclaim list and the new entry is alone in the bucket; otherwise
  nothing moves and the new entry is put in front of the bucket.
\<close>

theorem getBuffer_insert_cap:
  assumes "getBuffer P config x m t = Some ((0, fid), m', t')"
    and "creation_calls t < creation_calls t'"
    and "layer config \<noteq> 0 \<or> buffer_id config \<noteq> 0"
  shows "bucket_at (layer config) (cache_of (protection config) m') =
           \<lparr>drmFd = mDrmFd m, fbId = fid, identity = requested_identity P config\<rparr>
             # (if length (bucket_at (layer config) (cache_of (protection config) m))
                     > cap_of P (protection config)
                then [] else bucket_at (layer config) (cache_of (protection config) m))
         \<and> mCleanBuffers m' =
             mCleanBuffers m
               @ (if length (bucket_at (layer config) (cache_of (protection config) m))
                       > cap_of P (protection config)
                  then bucket_at (layer config) (cache_of (protection config) m) else [])"
proof -
  from getBuffer_created_miss [OF assms(1,2)] have miss: "lookup_id P config m = 0" .
  from getBuffer_miss [OF assms(1) miss] assms(3)
  have "m' = cached_state P config (requested_identity P config) fid
               (markInuseLayerLocked (layer config) (protection config) m)" by simp
  then show ?thesis by (simp add: cached_state_bucket cached_state_clean)
qed

theorem getBuffer_insert_cap_witness:
  "getBuffer sample_platform secure_config 0 over_secure_manager [] =
     Some ((0, 201),
           over_secure_manager\<lparr>
             mCleanBuffers := [sample_fb 105 11 True, sample_fb 104 10 True,
                               sample_fb 103 9 True, sample_fb 102 8 True],
             mCachedSecureLayerBuffers := [(2, [sample_fb 201 12 True])]\<rparr>,
           sample_trace 0x0C00000000000020)
   \<and> bucket_at 2 (mCachedSecureLayerBuffers over_secure_manager) =
       [sample_fb 105 11 True, sample_fb 104 10 True, sample_fb 103 9 True, sample_fb 102 8 True]
   \<and> cap_of sample_platform True = 3"
proof -
  have run: "getBuffer sample_platform secure_config 0 over_secure_manager [] =
     Some ((0, 201),
           over_secure_manager\<lparr>
             mCleanBuffers := [sample_fb 105 11 True, sample_fb 104 10 True,
                               sample_fb 103 9 True, sample_fb 102 8 True],
             mCachedSecureLayerBuffers := [(2, [sample_fb 201 12 True])]\<rparr>,
           sample_trace 0x0C00000000000020)"
    by (simp add: getBuffer_defs sample_defs Let_def)
  have cc: "creation_calls [] < creation_calls (sample_trace 0x0C00000000000020)"
    by (simp add: creation_calls_def sample_trace_def)
  have l: "layer secure_config \<noteq> 0 \<or> buffer_id secure_config \<noteq> 0"
    by (simp add: secure_config_def sample_config_def)
  from getBuffer_insert_cap [OF run cc l] run show ?thesis
    by (simp add: cache_of_def cap_of_def secure_config_def sample_config_def
        over_secure_manager_def sample_manager_def sample_platform_def bucket_at_def)
qed

text \<open>
  The claim as the spec words it fails: a bucket that holds exactly as many entries as the
  cap is pushed over the cap by the insertion, and nothing is moved to the reclaim list.
\<close>

theorem getBuffer_insert_cap_counterexample:
  "getBuffer sample_platform secure_config 0 full_secure_manager [] =
     Some ((0, 201),
           full_secure_manager\<lparr>mCachedSecureLayerBuffers :=
             [(2, [sample_fb 201 12 True, sample_fb 104 10 True, sample_fb 103 9 True,
                   sample_fb 102 8 True])]\<rparr>,
           sample_trace 0x0C00000000000020)
   \<and> cap_of sample_platform (protection secure_config) = 3
   \<and> length (bucket_at 2 (mCachedSecureLayerBuffers full_secure_manager)) = 3
   \<and> mCleanBuffers full_secure_manager = []"
  by (simp add: getBuffer_defs sample_defs cap_of_def Let_def)

subsection \<open>Framebuffers that are not tracked\<close>

text \<open>
  C10. When a call of \<^verbatim>\<open>getBuffer\<close> creates a framebuffer: if the layer is null and
  the buffer id is 0, both caches and the reclaim list are as before, so the manager
  holds no entry for the new id and will never reclaim it; otherwise the new entry is at
  the front of the layer's bucket, and the bucket and the reclaim list together hold one
  entry more than before.
\<close>

theorem getBuffer_untracked:
  assumes "getBuffer P config x m t = Some ((0, fid), m', t')"
    and "creation_calls t < creation_calls t'"
  shows "if layer config = 0 \<and> buffer_id config = 0
         then mCachedLayerBuffers m' = mCachedLayerBuffers m
            \<and> mCachedSecureLayerBuffers m' = mCachedSecureLayerBuffers m
            \<and> mCleanBuffers m' = mCleanBuffers m
         else hd (bucket_at (layer config) (cache_of (protection config) m')) =
                \<lparr>drmFd = mDrmFd m, fbId = fid, identity = requested_identity P config\<rparr>
            \<and> length (bucket_at (layer config) (cache_of (protection config) m'))
                + length (mCleanBuffers m')
              = Suc (length (bucket_at (layer config) (cache_of (protection config) m))
                     + length (mCleanBuffers m))"
proof -
  from getBuffer_created_miss [OF assms(1,2)] have miss: "lookup_id P config m = 0" .
  note r = getBuffer_miss [OF assms(1) miss]
  show ?thesis
  proof (cases "layer config = 0 \<and> buffer_id config = 0")
    case True
    with r show ?thesis by simp
  next
    case False
    with r have "m' = cached_state P config (requested_identity P config) fid
               (markInuseLayerLocked (layer config) (protection config) m)" by auto
    then have b: "hd (bucket_at (layer config) (cache_of (protection config) m')) =
                \<lparr>drmFd = mDrmFd m, fbId = fid, identity = requested_identity P config\<rparr>
            \<and> length (bucket_at (layer config) (cache_of (protection config) m'))
                + length (mCleanBuffers m')
              = Suc (length (bucket_at (layer config) (cache_of (protection config) m))
                     + length (mCleanBuffers m))"
      by (simp add: cached_state_bucket cached_state_clean)
    show ?thesis unfolding if_not_P [OF False] by (rule b)
  qed
qed

theorem getBuffer_untracked_witness:
  "getBuffer sample_platform untracked_config 0 sample_manager [] =
     Some ((0, 201), sample_manager, sample_trace 0)
   \<and> layer untracked_config = 0 \<and> buffer_id untracked_config = 0"
proof -
  have run: "getBuffer sample_platform untracked_config 0 sample_manager [] =
     Some ((0, 201), sample_manager, sample_trace 0)"
    by (simp add: getBuffer_defs sample_defs Let_def)
  have cc: "creation_calls [] < creation_calls (sample_trace 0)"
    by (simp add: creation_calls_def sample_trace_def)
  from getBuffer_untracked [OF run cc] run show ?thesis
    by (simp add: untracked_config_def sample_config_def)
qed

subsection \<open>A call that fails\<close>

text \<open>A call of \<^verbatim>\<open>getBuffer\<close> that returns an error leaves both caches and the
  reclaim list as they were.\<close>

lemma createAndCache_failure:
  assumes "createAndCache P config w h fmt bn a fb0 m t = ((ret, fid), m', t')" and "ret \<noteq> 0"
  shows "m' = m"
  using assms by (auto simp: createAndCache_def Let_def split: if_splits prod.splits)

lemma getBuffer_failure_keeps_caches:
  assumes "getBuffer P config x m t = Some ((ret, fid), m', t')" and "ret \<noteq> 0"
  shows "mCachedLayerBuffers m' = mCachedLayerBuffers m
         \<and> mCachedSecureLayerBuffers m' = mCachedSecureLayerBuffers m
         \<and> mCleanBuffers m' = mCleanBuffers m"
proof -
  have "m' = m \<or> m' = markInuseLayerLocked (layer config) (protection config) m"
    using assms
    by (auto simp: getBuffer_def Let_def case_prod_beta NO_ERROR_def
        split: if_splits option.splits dest: createAndCache_failure)
  then show ?thesis by auto
qed

text \<open>After the framebuffer call, whatever it returned, the handle of every buffer is
  closed: the path through \<^verbatim>\<open>addFB2WithModifiers\<close> releases what the loop opened.\<close>

lemma closed_handles_append [simp]:
  "closed_handles (t @ u) = closed_handles t @ closed_handles u"
  by (induction t rule: closed_handles.induct) simp_all

lemma closed_handles_freeHandles:
  "closed_handles (freeHandles P is hs t) =
     closed_handles t @ filter (\<lambda>h. h \<noteq> 0) (map (\<lambda>i. hs ! i) is)"
  by (induction "is" arbitrary: t) (simp_all add: freeBufHandle_def)

lemma createAndCache_closes_handles:
  assumes "createAndCache P config w h fmt bn a fb0 m t = (r, m', t')"
  shows "closed_handles t' =
           closed_handles t @ filter (\<lambda>h. h \<noteq> 0) (map (\<lambda>i. handles a ! i) [0..<bn])"
  using assms
  by (auto simp: createAndCache_def addFB2WithModifiers_def Let_def closed_handles_freeHandles
      split: if_splits prod.splits)

subsection \<open>A handle that is not resolved\<close>

text \<open>
  C7 at a failing input. The format has two buffers; the first file descriptor resolves
  to GEM handle 5 and the second does not resolve. \<^verbatim>\<open>getBuffer\<close> returns
  \<open>-ENOMEM\<close> from inside the loop and leaves the manager as it was, but the kernel
  calls it made open handle 5 and close nothing.
\<close>

theorem getBuffer_handle_leak:
  "getBuffer sample_platform two_buffer_config 0 sample_manager [] =
     Some ((- ENOMEM, 0), sample_manager, [PrimeFDToHandle 10 5, PrimeFDToHandle 99 0])
   \<and> opened_handles [PrimeFDToHandle 10 5, PrimeFDToHandle 99 0] = [5]
   \<and> closed_handles [PrimeFDToHandle 10 5, PrimeFDToHandle 99 0] = []"
  by (simp add: getBuffer_defs sample_defs Let_def)

theorem getBuffer_handle_leak_witness:
  "\<exists>ret m t. getBuffer sample_platform two_buffer_config 0 sample_manager [] = Some ((ret, 0), m, t)
     \<and> ret < 0 \<and> 5 \<in> set (opened_handles t) \<and> 5 \<notin> set (closed_handles t)"
  using getBuffer_handle_leak by (simp add: ENOMEM_def)

subsection \<open>Property writes that are skipped\<close>

text \<open>
  C5. For a property that the hardware lacks (kernel property id 0) or a new value equal
  to the property's current value, \<^verbatim>\<open>atomicAddProperty\<close> leaves the transaction as it
  is. It returns \<open>-EINVAL\<close> when the property is lacking and the call is not optional,
  and success otherwise: when the lacking property is optional, and when the value of a
  supported property does not change.
\<close>

theorem atomicAddProperty_skips:
  assumes "prop_id property = 0 \<or> v = prop_value property"
  shows "atomicAddProperty D obj property v optional r =
           (if prop_id property = 0 \<and> \<not> optional then - EINVAL else NO_ERROR, r)"
  using assms by (auto simp: atomicAddProperty_def validateChange_def)

theorem atomicAddProperty_skips_witness:
  "atomicAddProperty sample_device 60 \<lparr>prop_id = 0, prop_value = 0\<rparr> 1 False
     (newDrmModeAtomicReq sample_device) = (- 22, newDrmModeAtomicReq sample_device)
   \<and> atomicAddProperty sample_device 60 \<lparr>prop_id = 0, prop_value = 0\<rparr> 1 True
     (newDrmModeAtomicReq sample_device) = (0, newDrmModeAtomicReq sample_device)
   \<and> atomicAddProperty sample_device 60 \<lparr>prop_id = 21, prop_value = 1\<rparr> 1 False
     (newDrmModeAtomicReq sample_device) = (0, newDrmModeAtomicReq sample_device)"
  using atomicAddProperty_skips [of "\<lparr>prop_id = 0, prop_value = 0\<rparr>" 1 sample_device 60 False
      "newDrmModeAtomicReq sample_device"]
    atomicAddProperty_skips [of "\<lparr>prop_id = 0, prop_value = 0\<rparr>" 1 sample_device 60 True
      "newDrmModeAtomicReq sample_device"]
    atomicAddProperty_skips [of "\<lparr>prop_id = 21, prop_value = 1\<rparr>" 1 sample_device 60 False
      "newDrmModeAtomicReq sample_device"]
  by (simp add: EINVAL_def NO_ERROR_def)

subsection \<open>The result of a commit\<close>



lemmas device_defs =
  sample_device_def rejecting_device_def sample_display_def sample_mode_def sample_vsync_def
  newDrmModeAtomicReq_def



subsection \<open>A request for the active mode\<close>

text \<open>
  C9, as the code has it. With no mode change pending, an active blob id that is not 0
  and \<open>config\<close> the id of the active mode, \<^verbatim>\<open>setActiveConfigWithConstraints\<close>
  builds no transaction, so it writes no property, and creates no property blob; both
  mode states stay as they are. It returns success when the connector's list of modes
  holds \<open>config\<close> (then it only sets the desired vsync period and enables vsync), and
  \<open>HWC2_ERROR_BAD_CONFIG\<close> when the list does not.
\<close>

theorem setActiveConfig_same_mode:
  assumes "\<not> needsModeSet (mDesiredModeState d)"
    and "blob_id (mActiveModeState d) \<noteq> 0"
    and "mode_id (mode (mActiveModeState d)) = config"
  shows "setActiveConfigWithConstraints D config test d t =
           (if config \<in> mode_id ` set (modes d)
            then (HWC2_ERROR_NONE, None,
                  d\<lparr>mVsyncCallback :=
                      setDesiredVsyncPeriod (te_period (mode (mActiveModeState d)))
                        (mVsyncCallback d)\<rparr>,
                  t @ [VSyncControl True])
            else (HWC2_ERROR_BAD_CONFIG, None, d, t))
         \<and> blob_creations (snd (snd (snd (setActiveConfigWithConstraints D config test d t))))
             = blob_creations t"
proof (cases "find (\<lambda>m. mode_id m = config) (modes d)")
  case None
  then have "config \<notin> mode_id ` set (modes d)" by (auto simp: find_None_iff)
  with None show ?thesis by (simp add: setActiveConfigWithConstraints_def)
next
  case (Some m)
  then have "config \<in> mode_id ` set (modes d)" by (auto simp: find_Some_iff)
  with Some assms show ?thesis
    by (simp add: setActiveConfigWithConstraints_def blob_creations_def)
qed

theorem setActiveConfig_same_mode_witness:
  "setActiveConfigWithConstraints sample_device 1 False sample_display [] =
     (0, None,
      sample_display\<lparr>mVsyncCallback := sample_vsync\<lparr>mDesiredVsyncPeriod := 16666666\<rparr>\<rparr>,
      [VSyncControl True])
   \<and> blob_creations [VSyncControl True] = 0"
proof -
  have a: "\<not> needsModeSet (mDesiredModeState sample_display)"
    by (simp add: needsModeSet_def sample_display_def)
  have b: "blob_id (mActiveModeState sample_display) \<noteq> 0"
    by (simp add: sample_display_def)
  have c: "mode_id (mode (mActiveModeState sample_display)) = 1"
    by (simp add: sample_display_def sample_mode_def)
  from setActiveConfig_same_mode [OF a b c, of sample_device False "[]"]
  show ?thesis
    by (simp add: device_defs setDesiredVsyncPeriod_def HWC2_ERROR_NONE_def blob_creations_def)
qed

text \<open>
  The claim as the spec words it, for every config, fails when the connector's list of
  modes no longer holds the active mode: the lookup comes first and the call returns
  \<open>HWC2_ERROR_BAD_CONFIG\<close>.
\<close>

theorem setActiveConfig_same_mode_counterexample:
  "\<not> needsModeSet (mDesiredModeState (sample_display\<lparr>modes := []\<rparr>))
   \<and> blob_id (mActiveModeState (sample_display\<lparr>modes := []\<rparr>)) = 40
   \<and> mode_id (mode (mActiveModeState (sample_display\<lparr>modes := []\<rparr>))) = 1
   \<and> setActiveConfigWithConstraints sample_device 1 False (sample_display\<lparr>modes := []\<rparr>) [] =
       (HWC2_ERROR_BAD_CONFIG, None, sample_display\<lparr>modes := []\<rparr>, [])
   \<and> HWC2_ERROR_BAD_CONFIG \<noteq> HWC2_ERROR_NONE"
  by (simp add: setActiveConfigWithConstraints_def needsModeSet_def device_defs
      HWC2_ERROR_BAD_CONFIG_def HWC2_ERROR_NONE_def)

subsection \<open>When a mode switch counts as applied\<close>

lemma sint_ucast_diff:
  fixes a b :: u64
  assumes "\<bar>uint a - uint b\<bar> < 2 ^ 31"
  shows "sint (ucast (a - b) :: u32) = uint a - uint b"
proof -
  have "sint (ucast (a - b) :: u32) = signed_take_bit 31 (take_bit 64 (uint a - uint b))"
    by (simp add: ucast_eq sint_sbintrunc' uint_word_arith_bintrs)
  also have "\<dots> = signed_take_bit 31 (uint a - uint b)"
    by (simp add: signed_take_bit_take_bit)
  also have "\<dots> = uint a - uint b"
    using assms by (intro signed_take_bit_int_eq_self) auto
  finally show ?thesis .
qed

lemma sint_ucast_error:
  fixes d :: u64
  assumes "uint d < 5 * 2 ^ 31"
  shows "sint (ucast (d div 5) :: u32) = uint d div 5"
proof -
  have nn: "0 \<le> uint d div 5" by (simp add: pos_imp_zdiv_nonneg_iff)
  have lt: "uint d div 5 < 2 ^ 31" using assms by simp
  have "sint (ucast (d div 5) :: u32) = signed_take_bit 31 (uint d div 5)"
    by (simp add: ucast_eq sint_sbintrunc' uint_div)
  also have "\<dots> = uint d div 5"
    using nn lt by (intro signed_take_bit_int_eq_self) auto
  finally show ?thesis .
qed


lemma uint_bound:
  fixes s p :: u64 and dur e :: u32
  assumes "sint e \<le> uint s + uint p * sint dur"
    and "uint s + uint p * sint dur - sint e < 2 ^ 64"
  shows "uint (s + p * scast dur - scast e) = uint s + uint p * sint dur - sint e"
proof -
  have "(word_of_int (uint s + uint p * sint dur - sint e) :: u64) =
        word_of_int (uint s) + word_of_int (uint p) * word_of_int (sint dur)
          - word_of_int (sint e)"
    by (simp only: of_int_add of_int_mult of_int_diff)
  also have "\<dots> = s + p * scast dur - scast e"
    by (simp only: word_of_int_uint scast_eq)
  finally have eq: "(word_of_int (uint s + uint p * sint dur - sint e) :: u64) =
        s + p * scast dur - scast e" .
  have "uint (s + p * scast dur - scast e) =
        uint (word_of_int (uint s + uint p * sint dur - sint e) :: u64)"
    by (simp only: eq)
  also have "\<dots> = take_bit 64 (uint s + uint p * sint dur - sint e)"
    by (subst uint_word_of_int_eq) simp
  also have "\<dots> = uint s + uint p * sint dur - sint e"
    using assms by (intro take_bit_int_eq_self) auto
  finally show ?thesis .
qed

lemma Callback_fst:
  "fst (Callback F display ts v) =
     (let P = (if mVsyncTimeStamp v > 0 then ts - mVsyncTimeStamp v else mVsyncPeriod v);
          D = mDesiredVsyncPeriod v;
          S = getSignalTime F (mModeSetFence v)
      in D = 0 \<or> \<bar>sint (ucast (D - P) :: u32)\<bar> < sint (ucast (D div 5) :: u32)
         \<or> (S \<noteq> SIGNAL_TIME_INVALID F \<and> S \<noteq> SIGNAL_TIME_PENDING F
            \<and> S + P * scast (mTransientDuration v) - scast (ucast (D div 5) :: u32) < ts))"
  by (simp add: Callback_def Let_def)

text \<open>
  C6, as the code has it. The observed period is the difference between this time stamp
  and the recorded one when a time stamp is recorded; when none is (the stamp is 0, as
  after a reset) the stored period is kept. For values in range (a desired period below
  \<open>5 * 2 ^ 31\<close>, a difference of the periods below \<open>2 ^ 31\<close> in size, a recorded
  stamp that is not after this one, and a time-out bound that fits 64 bits without sign
  when the fence has signalled), \<^verbatim>\<open>Callback\<close> reports the switch as applied exactly
  when no desired period is pending, or the observed period is within a fifth of the
  desired one, or the fence has a valid signal time and this time stamp is past the
  signal time plus the observed period times the transient duration, less that fifth.
\<close>

theorem Callback_applied:
  fixes v :: ExynosVsyncCallback and F :: fence_clock and ts :: u64
  defines "period \<equiv> (if mVsyncTimeStamp v = 0 then uint (mVsyncPeriod v)
                       else uint ts - uint (mVsyncTimeStamp v))"
    and "desired \<equiv> uint (mDesiredVsyncPeriod v)"
    and "duration \<equiv> sint (mTransientDuration v)"
    and "signalTime \<equiv> getSignalTime F (mModeSetFence v)"
  assumes stamp: "mVsyncTimeStamp v \<le> ts"
    and small: "desired < 5 * 2 ^ 31"
    and near: "\<bar>desired - period\<bar> < 2 ^ 31"
    and bound: "signalTime = SIGNAL_TIME_INVALID F \<or> signalTime = SIGNAL_TIME_PENDING F
                \<or> (desired div 5 \<le> uint signalTime + period * duration
                   \<and> uint signalTime + period * duration - desired div 5 < 2 ^ 64)"
  shows "fst (Callback F display ts v) \<longleftrightarrow>
           desired = 0
           \<or> \<bar>desired - period\<bar> < desired div 5
           \<or> (signalTime \<noteq> SIGNAL_TIME_INVALID F \<and> signalTime \<noteq> SIGNAL_TIME_PENDING F
              \<and> uint signalTime + period * duration - desired div 5 < uint ts)"
proof -
  define P where "P = (if mVsyncTimeStamp v > 0 then ts - mVsyncTimeStamp v else mVsyncPeriod v)"
  have uP: "uint P = period"
  proof (cases "mVsyncTimeStamp v = 0")
    case True
    then show ?thesis by (simp add: P_def period_def)
  next
    case False
    then have "0 < mVsyncTimeStamp v" by (simp add: word_greater_zero_iff)
    moreover from stamp have "uint (ts - mVsyncTimeStamp v) = uint ts - uint (mVsyncTimeStamp v)"
      by (simp add: uint_minus_simple_alt)
    ultimately show ?thesis using False by (simp add: P_def period_def)
  qed
  have e: "sint (ucast (mDesiredVsyncPeriod v div 5) :: u32) = desired div 5"
    using small unfolding desired_def by (rule sint_ucast_error)
  have d: "sint (ucast (mDesiredVsyncPeriod v - P) :: u32) = desired - period"
    using near unfolding desired_def uP [symmetric] by (rule sint_ucast_diff)
  have z: "mDesiredVsyncPeriod v = 0 \<longleftrightarrow> desired = 0"
    by (simp add: desired_def uint_0_iff)
  have first: "fst (Callback F display ts v) \<longleftrightarrow>
     desired = 0 \<or> \<bar>desired - period\<bar> < desired div 5
         \<or> (signalTime \<noteq> SIGNAL_TIME_INVALID F \<and> signalTime \<noteq> SIGNAL_TIME_PENDING F
            \<and> signalTime + P * scast (mTransientDuration v)
                 - scast (ucast (mDesiredVsyncPeriod v div 5) :: u32) < ts)"
    unfolding Callback_fst Let_def P_def [symmetric] signalTime_def [symmetric] e d z ..
  show ?thesis
  proof (cases "signalTime = SIGNAL_TIME_INVALID F \<or> signalTime = SIGNAL_TIME_PENDING F")
    case True
    with first show ?thesis by auto
  next
    case False
    with bound have b: "desired div 5 \<le> uint signalTime + period * duration"
      "uint signalTime + period * duration - desired div 5 < 2 ^ 64" by auto
    have "uint (signalTime + P * scast (mTransientDuration v)
                 - scast (ucast (mDesiredVsyncPeriod v div 5) :: u32)) =
          uint signalTime + period * duration - desired div 5"
      using b uint_bound [of "ucast (mDesiredVsyncPeriod v div 5)" signalTime P "mTransientDuration v"]
      by (simp add: e uP duration_def)
    then have "signalTime + P * scast (mTransientDuration v)
                 - scast (ucast (mDesiredVsyncPeriod v div 5) :: u32) < ts \<longleftrightarrow>
          uint signalTime + period * duration - desired div 5 < uint ts"
      by (simp add: word_less_alt)
    with first show ?thesis by simp
  qed
qed


lemmas vsync_defs = sample_clock_def reset_vsync_def switching_vsync_def

theorem Callback_applied_witness:
  "fst (Callback sample_clock 0 1008333333 switching_vsync)
   \<and> fst (Callback sample_clock 0 1016666666 switching_vsync) = False
   \<and> fst (Callback sample_clock 0 1016666666 (switching_vsync\<lparr>mModeSetFence := 8\<rparr>))
   \<and> fst (Callback sample_clock 0 5000000000 reset_vsync)"
proof -
  have a: "fst (Callback sample_clock 0 1008333333 switching_vsync)"
    using Callback_applied [of switching_vsync 1008333333 sample_clock 0]
    by (simp add: vsync_defs)
  have b: "fst (Callback sample_clock 0 1016666666 switching_vsync) = False"
    using Callback_applied [of switching_vsync 1016666666 sample_clock 0]
    by (simp add: vsync_defs)
  have c: "fst (Callback sample_clock 0 1016666666 (switching_vsync\<lparr>mModeSetFence := 8\<rparr>))"
    using Callback_applied [of "switching_vsync\<lparr>mModeSetFence := 8\<rparr>" 1016666666
        sample_clock 0]
    by (simp add: vsync_defs)
  have d: "fst (Callback sample_clock 0 5000000000 reset_vsync)"
    using Callback_applied [of reset_vsync 5000000000 sample_clock 0]
    by (simp add: vsync_defs)
  from a b c d show ?thesis by simp
qed
text \<open>
  The claim as the spec words it fails at a callback whose stamp was reset: the stored
  period of the old mode equals the desired one, and the callback reports applied
  though five seconds lie between this time stamp and the recorded 0, and the fence has
  no signal time. It also fails where the difference of the periods does not fit 32
  bits: \<open>2 ^ 32\<close> nanoseconds more than the desired period are cut to 0.
\<close>

theorem Callback_applied_counterexample:
  "fst (Callback sample_clock 0 5000000000 reset_vsync)
   \<and> \<not> \<bar>uint (mDesiredVsyncPeriod reset_vsync)
          - (uint (5000000000 :: u64) - uint (mVsyncTimeStamp reset_vsync))\<bar>
        < uint (mDesiredVsyncPeriod reset_vsync) div 5
   \<and> getSignalTime sample_clock (mModeSetFence reset_vsync) = SIGNAL_TIME_INVALID sample_clock
   \<and> fst (Callback sample_clock 0 5303300629 (switching_vsync\<lparr>mModeSetFence := - 1\<rparr>))
   \<and> \<not> \<bar>uint (mDesiredVsyncPeriod switching_vsync)
          - (uint (5303300629 :: u64) - uint (mVsyncTimeStamp switching_vsync))\<bar>
        < uint (mDesiredVsyncPeriod switching_vsync) div 5
   \<and> getSignalTime sample_clock (- 1) = SIGNAL_TIME_INVALID sample_clock"
  by (simp add: Callback_def Let_def vsync_defs)



end
